theory Spec2Isabelle
  imports Complex_Main "HOL-Library.AList"
begin

section \<open>Python values, exceptions and the dictionary operations the agents use\<close>

text \<open>
  The agents pass around plain Python objects: dictionaries with string keys, lists,
  strings, numbers, booleans and \<open>None\<close> (what \<open>json.loads\<close> returns, and what the
  agents build themselves). A dictionary is an association list, so that the insertion
  order of Python's \<open>dict\<close> is kept; a lookup reads the first entry of a key and an
  assignment replaces it in place or appends a new key. A Python \<open>str\<close> is a list of
  characters, one per code point; the model is exact for text whose code points are
  below 256. A Python \<open>float\<close>
  is idealised as an exact rational.

  An exception is a value: a function that may raise returns \<open>pyexn + 'a\<close>, with
  \<open>Inl\<close> the exception raised.
\<close>

datatype pyexn =
  TypeError | AttributeError | KeyError | ValueError | RuntimeError
  | FileNotFoundError | JSONDecodeError

datatype pyval =
  PNone | PBool bool | PInt int | PFloat rat | PStr string
  | PList "pyval list" | PDict "(string \<times> pyval) list"

definition ebind :: "pyexn + 'a \<Rightarrow> ('a \<Rightarrow> pyexn + 'b) \<Rightarrow> pyexn + 'b" where
  "ebind m f = (case m of Inl e \<Rightarrow> Inl e | Inr x \<Rightarrow> f x)"

text \<open>A \<open>for\<close> loop that rewrites each item of a list and stops at the first exception.\<close>

fun emap :: "('a \<Rightarrow> pyexn + 'b) \<Rightarrow> 'a list \<Rightarrow> pyexn + 'b list" where
  "emap f [] = Inr []"
| "emap f (x # xs) =
     (case f x of
        Inl e \<Rightarrow> Inl e
      | Inr y \<Rightarrow> (case emap f xs of Inl e \<Rightarrow> Inl e | Inr ys \<Rightarrow> Inr (y # ys)))"

text \<open>\<open>s.startswith(p)\<close>, \<open>s.endswith(p)\<close> and \<open>sub in s\<close> on strings.\<close>

definition startswith :: "string \<Rightarrow> string \<Rightarrow> bool" where
  "startswith s p = (take (length p) s = p)"

definition endswith :: "string \<Rightarrow> string \<Rightarrow> bool" where
  "endswith s p = (length p \<le> length s \<and> drop (length s - length p) s = p)"

fun is_substring :: "string \<Rightarrow> string \<Rightarrow> bool" where
  "is_substring sub [] = (sub = [])"
| "is_substring sub (c # cs) = (startswith (c # cs) sub \<or> is_substring sub cs)"

definition code_point :: "char \<Rightarrow> nat" where
  "code_point c = of_char c"

text \<open>
  The decimal digits (\<open>\d\<close>), and \<open>str.isdigit\<close>, which also holds for the
  superscripts one, two and three.
\<close>

definition is_decimal :: "char \<Rightarrow> bool" where
  "is_decimal c = (48 \<le> code_point c \<and> code_point c \<le> 57)"

definition isdigit :: "char \<Rightarrow> bool" where
  "isdigit c = (is_decimal c \<or> code_point c = 0xB2 \<or> code_point c = 0xB3 \<or> code_point c = 0xB9)"

text \<open>Truth value of an object (\<open>if x:\<close>).\<close>

fun truthy :: "pyval \<Rightarrow> bool" where
  "truthy PNone = False"
| "truthy (PBool b) = b"
| "truthy (PInt i) = (i \<noteq> 0)"
| "truthy (PFloat r) = (r \<noteq> 0)"
| "truthy (PStr s) = (s \<noteq> [])"
| "truthy (PList xs) = (xs \<noteq> [])"
| "truthy (PDict d) = (d \<noteq> [])"

text \<open>
  \<open>k in x\<close> for a string \<open>k\<close>: a key test on a dictionary, a membership test on a
  list, a substring test on a string, and a \<open>TypeError\<close> on everything else.
\<close>

fun py_contains :: "string \<Rightarrow> pyval \<Rightarrow> pyexn + bool" where
  "py_contains k (PDict d) = Inr (k \<in> set (map fst d))"
| "py_contains k (PList xs) = Inr (PStr k \<in> set xs)"
| "py_contains k (PStr s) = Inr (is_substring k s)"
| "py_contains k PNone = Inl TypeError"
| "py_contains k (PBool b) = Inl TypeError"
| "py_contains k (PInt i) = Inl TypeError"
| "py_contains k (PFloat r) = Inl TypeError"

text \<open>\<open>x.get(k, default)\<close>: only a dictionary has the method.\<close>

fun py_get :: "pyval \<Rightarrow> string \<Rightarrow> pyval \<Rightarrow> pyexn + pyval" where
  "py_get (PDict d) k dflt = Inr (case map_of d k of None \<Rightarrow> dflt | Some v \<Rightarrow> v)"
| "py_get PNone k dflt = Inl AttributeError"
| "py_get (PBool b) k dflt = Inl AttributeError"
| "py_get (PInt i) k dflt = Inl AttributeError"
| "py_get (PFloat r) k dflt = Inl AttributeError"
| "py_get (PStr s) k dflt = Inl AttributeError"
| "py_get (PList xs) k dflt = Inl AttributeError"

text \<open>\<open>x[k]\<close> and \<open>x[k] = v\<close> for a string \<open>k\<close>.\<close>

fun py_getitem :: "pyval \<Rightarrow> string \<Rightarrow> pyexn + pyval" where
  "py_getitem (PDict d) k = (case map_of d k of None \<Rightarrow> Inl KeyError | Some v \<Rightarrow> Inr v)"
| "py_getitem PNone k = Inl TypeError"
| "py_getitem (PBool b) k = Inl TypeError"
| "py_getitem (PInt i) k = Inl TypeError"
| "py_getitem (PFloat r) k = Inl TypeError"
| "py_getitem (PStr s) k = Inl TypeError"
| "py_getitem (PList xs) k = Inl TypeError"

fun py_setitem :: "pyval \<Rightarrow> string \<Rightarrow> pyval \<Rightarrow> pyexn + pyval" where
  "py_setitem (PDict d) k v = Inr (PDict (AList.update k v d))"
| "py_setitem PNone k v = Inl TypeError"
| "py_setitem (PBool b) k v = Inl TypeError"
| "py_setitem (PInt i) k v = Inl TypeError"
| "py_setitem (PFloat r) k v = Inl TypeError"
| "py_setitem (PStr s) k v = Inl TypeError"
| "py_setitem (PList xs) k v = Inl TypeError"

text \<open>
  \<open>for x in v\<close>: the items of a list, the characters of a string, the keys of a
  dictionary; nothing else can be iterated.
\<close>

fun py_iter :: "pyval \<Rightarrow> pyexn + pyval list" where
  "py_iter (PList xs) = Inr xs"
| "py_iter (PStr s) = Inr (map (\<lambda>c. PStr [c]) s)"
| "py_iter (PDict d) = Inr (map (\<lambda>kv. PStr (fst kv)) d)"
| "py_iter PNone = Inl TypeError"
| "py_iter (PBool b) = Inl TypeError"
| "py_iter (PInt i) = Inl TypeError"
| "py_iter (PFloat r) = Inl TypeError"

text \<open>
  Reading a dictionary for the statements below: the value stored under a key, if the
  object is a dictionary and has the key.
\<close>

fun lookup :: "pyval \<Rightarrow> string \<Rightarrow> pyval option" where
  "lookup (PDict d) k = map_of d k"
| "lookup PNone k = None"
| "lookup (PBool b) k = None"
| "lookup (PInt i) k = None"
| "lookup (PFloat r) k = None"
| "lookup (PStr s) k = None"
| "lookup (PList xs) k = None"

fun is_dict :: "pyval \<Rightarrow> bool" where
  "is_dict (PDict d) = True"
| "is_dict PNone = False"
| "is_dict (PBool b) = False"
| "is_dict (PInt i) = False"
| "is_dict (PFloat r) = False"
| "is_dict (PStr s) = False"
| "is_dict (PList xs) = False"

section \<open>MappingAgent: component-code normalisation (\<open>_clean_mapping_ids\<close>)\<close>

text \<open>
  The four blocks of \<open>_clean_mapping_ids\<close> are the same code with another prefix:
  \<^verbatim>\<open>
  while element_id.startswith('EE'):  element_id = element_id[1:]
  if not element_id.startswith('E'):  element_id = f"E{element_id}"
  if not any(char.isdigit() for char in element_id[1:]):  element_id = f"{element_id}1"
  \<close>
  with \<open>'PCPC'\<close>, \<open>[2:]\<close> and \<open>'PC'\<close> for the criteria, and likewise \<open>PE\<close> and \<open>KE\<close>.
\<close>

function strip_doubled_prefix :: "string \<Rightarrow> string \<Rightarrow> string" where
  "strip_doubled_prefix p s =
     (if p \<noteq> [] \<and> startswith s (p @ p) then strip_doubled_prefix p (drop (length p) s) else s)"
  by pat_completeness auto
termination
proof (relation "measure (\<lambda>(p, s). length s)")
  show "wf (measure (\<lambda>(p, s). length s))" by simp
next
  fix p s :: string
  assume a: "p \<noteq> [] \<and> startswith s (p @ p)"
  then have "length (take (length (p @ p)) s) = length (p @ p)"
    unfolding startswith_def by simp
  then have "length (p @ p) \<le> length s"
    by simp
  with a show "((p, drop (length p) s), (p, s)) \<in> measure (\<lambda>(p, s). length s)"
    by (cases p) auto
qed

declare strip_doubled_prefix.simps [simp del]

definition normalize_id :: "string \<Rightarrow> string \<Rightarrow> string" where
  "normalize_id p s0 =
     (let s1 = strip_doubled_prefix p s0;
          s2 = (if \<not> startswith s1 p then p @ s1 else s1);
          s3 = (if \<not> list_ex isdigit (drop (length p) s2) then s2 @ ''1'' else s2)
      in s3)"

text \<open>
  One block on one item: \<open>if 'element_id' in element\<close>, read it, \<open>if element_id:\<close>,
  normalise (a value that is not a string has no \<open>startswith\<close>), and store the result
  under the id key and the code key.
\<close>

definition clean_id_field :: "string \<Rightarrow> string \<Rightarrow> string \<Rightarrow> pyval \<Rightarrow> pyexn + pyval" where
  "clean_id_field p id_key code_key item =
     ebind (py_contains id_key item) (\<lambda>present.
       if \<not> present then Inr item
       else ebind (py_getitem item id_key) (\<lambda>v.
         if \<not> truthy v then Inr item
         else (case v of
                 PStr s \<Rightarrow>
                   ebind (py_setitem item id_key (PStr (normalize_id p s))) (\<lambda>item'.
                     py_setitem item' code_key (PStr (normalize_id p s)))
               | _ \<Rightarrow> Inl AttributeError)))"

text \<open>
  One loop \<open>for item in mapping_analysis.get(key, [])\<close>. The items of a list are
  dictionaries changed in place, so the list under \<open>key\<close> holds the cleaned items
  afterwards. When the value is a string or a dictionary the loop runs over strings,
  which the block either skips or fails on, and nothing is changed.
\<close>

definition clean_category :: "string \<Rightarrow> (pyval \<Rightarrow> pyexn + pyval) \<Rightarrow> pyval \<Rightarrow> pyexn + pyval" where
  "clean_category key f ma =
     ebind (py_get ma key (PList [])) (\<lambda>v.
       case v of
         PList xs \<Rightarrow>
           ebind (emap f xs) (\<lambda>xs'.
             ebind (py_contains key ma) (\<lambda>present.
               if present then py_setitem ma key (PList xs') else Inr ma))
       | _ \<Rightarrow> ebind (py_iter v) (\<lambda>xs. ebind (emap f xs) (\<lambda>_. Inr ma)))"

definition clean_mapping_ids :: "pyval \<Rightarrow> pyexn + pyval" where
  "clean_mapping_ids mapping_analysis =
     ebind (clean_category ''mapped_elements''
              (clean_id_field ''E'' ''element_id'' ''element_code'') mapping_analysis) (\<lambda>ma1.
     ebind (clean_category ''mapped_performance_criteria''
              (clean_id_field ''PC'' ''criterion_id'' ''criterion_code'') ma1) (\<lambda>ma2.
     ebind (clean_category ''mapped_performance_evidence''
              (clean_id_field ''PE'' ''evidence_id'' ''evidence_code'') ma2) (\<lambda>ma3.
     clean_category ''mapped_knowledge_evidence''
       (\<lambda>ke. ebind (clean_id_field ''KE'' ''evidence_id'' ''evidence_code'' ke)
                (clean_id_field ''KE'' ''knowledge_id'' ''knowledge_code'')) ma3)))"

text \<open>
  \<open>_validate_id_format\<close>: the id is not empty, starts with the prefix and has a digit
  after it.
\<close>

definition validate_id_format :: "pyval \<Rightarrow> string \<Rightarrow> pyexn + bool" where
  "validate_id_format id_value expected_prefix =
     (if \<not> truthy id_value then Inr False
      else (case id_value of
              PStr s \<Rightarrow>
                Inr (startswith s expected_prefix
                     \<and> list_ex isdigit (drop (length expected_prefix) s))
            | _ \<Rightarrow> Inl AttributeError))"

section \<open>MappingAgent: validating and completing a parsed reply\<close>

text \<open>More of Python's object protocol: \<open>len\<close>, \<open>setdefault\<close>, and adding numbers.\<close>

fun py_len :: "pyval \<Rightarrow> pyexn + nat" where
  "py_len (PList xs) = Inr (length xs)"
| "py_len (PStr s) = Inr (length s)"
| "py_len (PDict d) = Inr (length d)"
| "py_len PNone = Inl TypeError"
| "py_len (PBool b) = Inl TypeError"
| "py_len (PInt i) = Inl TypeError"
| "py_len (PFloat r) = Inl TypeError"

text \<open>
  \<open>d.setdefault(k, v)\<close> returns the dictionary after the call and the value now
  stored under \<open>k\<close>.
\<close>

fun py_setdefault :: "pyval \<Rightarrow> string \<Rightarrow> pyval \<Rightarrow> pyexn + (pyval \<times> pyval)" where
  "py_setdefault (PDict d) k v =
     (case map_of d k of
        None \<Rightarrow> Inr (PDict (AList.update k v d), v)
      | Some w \<Rightarrow> Inr (PDict d, w))"
| "py_setdefault PNone k v = Inl AttributeError"
| "py_setdefault (PBool b) k v = Inl AttributeError"
| "py_setdefault (PInt i) k v = Inl AttributeError"
| "py_setdefault (PFloat r) k v = Inl AttributeError"
| "py_setdefault (PStr s) k v = Inl AttributeError"
| "py_setdefault (PList xs) k v = Inl AttributeError"

text \<open>
  \<open>total += x\<close> for a numeric \<open>total\<close>: a \<open>bool\<close> counts as 0 or 1, the sum is a
  \<open>float\<close> as soon as one side is, and anything that is not a number is a
  \<open>TypeError\<close>.
\<close>

fun num_value :: "pyval \<Rightarrow> rat option" where
  "num_value (PInt i) = Some (of_int i)"
| "num_value (PBool b) = Some (if b then 1 else 0)"
| "num_value (PFloat r) = Some r"
| "num_value PNone = None"
| "num_value (PStr s) = None"
| "num_value (PList xs) = None"
| "num_value (PDict d) = None"

fun int_value :: "pyval \<Rightarrow> int option" where
  "int_value (PInt i) = Some i"
| "int_value (PBool b) = Some (if b then 1 else 0)"
| "int_value (PFloat r) = None"
| "int_value PNone = None"
| "int_value (PStr s) = None"
| "int_value (PList xs) = None"
| "int_value (PDict d) = None"

definition py_add :: "pyval \<Rightarrow> pyval \<Rightarrow> pyexn + pyval" where
  "py_add a b =
     (case (int_value a, int_value b) of
        (Some i, Some j) \<Rightarrow> Inr (PInt (i + j))
      | _ \<Rightarrow> (case (num_value a, num_value b) of
                 (Some r, Some q) \<Rightarrow> Inr (PFloat (r + q))
               | _ \<Rightarrow> Inl TypeError))"

text \<open>\<open>round(x, n)\<close> on a float: to \<open>n\<close> decimals, ties to the even neighbour.\<close>

definition round_half_even :: "rat \<Rightarrow> int" where
  "round_half_even q =
     (let f = \<lfloor>q\<rfloor>; d = q - of_int f
      in if d < 1 / 2 then f else if 1 / 2 < d then f + 1 else if even f then f else f + 1)"

definition py_round :: "rat \<Rightarrow> nat \<Rightarrow> rat" where
  "py_round x n = of_int (round_half_even (x * 10 ^ n)) / 10 ^ n"

text \<open>A \<open>for\<close> loop that threads an accumulator and stops at the first exception.\<close>

fun efold :: "('a \<Rightarrow> 's \<Rightarrow> pyexn + 's) \<Rightarrow> 'a list \<Rightarrow> 's \<Rightarrow> pyexn + 's" where
  "efold f [] s = Inr s"
| "efold f (x # xs) s = (case f x s of Inl e \<Rightarrow> Inl e | Inr s' \<Rightarrow> efold f xs s')"

subsection \<open>\<open>_validate_basic_mapping_structure\<close>\<close>

text \<open>
  \<^verbatim>\<open>
  for field in ['question_id', 'mapping_analysis']:
      if field not in mapping_data: return False
  mapping_analysis = mapping_data.get('mapping_analysis', {})
  for field in ['mapped_elements', 'mapped_performance_criteria']:
      if field not in mapping_analysis: return False
      if not isinstance(mapping_analysis[field], list): return False
  return True
  \<close>
\<close>

fun is_list :: "pyval \<Rightarrow> bool" where
  "is_list (PList xs) = True"
| "is_list PNone = False"
| "is_list (PBool b) = False"
| "is_list (PInt i) = False"
| "is_list (PFloat r) = False"
| "is_list (PStr s) = False"
| "is_list (PDict d) = False"

definition analysis_field_ok :: "pyval \<Rightarrow> string \<Rightarrow> pyexn + bool" where
  "analysis_field_ok mapping_analysis field =
     ebind (py_contains field mapping_analysis) (\<lambda>present.
       if \<not> present then Inr False
       else ebind (py_getitem mapping_analysis field) (\<lambda>v. Inr (is_list v)))"

definition validate_basic_mapping_structure :: "pyval \<Rightarrow> pyexn + bool" where
  "validate_basic_mapping_structure mapping_data =
     ebind (py_contains ''question_id'' mapping_data) (\<lambda>has_id.
       if \<not> has_id then Inr False
       else ebind (py_contains ''mapping_analysis'' mapping_data) (\<lambda>has_analysis.
         if \<not> has_analysis then Inr False
         else ebind (py_get mapping_data ''mapping_analysis'' (PDict [])) (\<lambda>mapping_analysis.
           ebind (analysis_field_ok mapping_analysis ''mapped_elements'') (\<lambda>ok1.
             if \<not> ok1 then Inr False
             else analysis_field_ok mapping_analysis ''mapped_performance_criteria''))))"

subsection \<open>\<open>_log_id_validation_issues\<close>\<close>

text \<open>
  The function only writes to the log, but it reads every item with \<open>.get\<close> and calls
  \<open>_validate_id_format\<close> on the id, so it can raise. The model returns the number of
  issues found.
\<close>

definition log_category :: "pyval \<Rightarrow> string \<Rightarrow> string \<Rightarrow> string \<Rightarrow> pyexn + nat" where
  "log_category mapping_analysis key id_key expected_prefix =
     ebind (py_get mapping_analysis key (PList [])) (\<lambda>v.
       ebind (py_iter v) (\<lambda>items.
         efold (\<lambda>item n.
                 ebind (py_get item id_key (PStr [])) (\<lambda>id_value.
                   ebind (validate_id_format id_value expected_prefix) (\<lambda>ok.
                     Inr (if ok then n else Suc n))))
               items 0))"

definition log_id_validation_issues :: "pyval \<Rightarrow> pyexn + nat" where
  "log_id_validation_issues mapping_analysis =
     ebind (log_category mapping_analysis ''mapped_elements'' ''element_id'' ''E'') (\<lambda>n1.
     ebind (log_category mapping_analysis ''mapped_performance_criteria'' ''criterion_id'' ''PC'') (\<lambda>n2.
     ebind (log_category mapping_analysis ''mapped_performance_evidence'' ''evidence_id'' ''PE'') (\<lambda>n3.
     ebind (log_category mapping_analysis ''mapped_knowledge_evidence'' ''evidence_id'' ''KE'') (\<lambda>n4.
       Inr (n1 + n2 + n3 + n4)))))"

subsection \<open>\<open>_calculate_mapping_statistics\<close>\<close>

record stats_acc =
  total_mappings :: nat
  total_confidence :: pyval
  full_compliance :: nat
  partial_compliance :: nat
  minimal_compliance :: nat

definition stats_item :: "pyval \<Rightarrow> stats_acc \<Rightarrow> pyexn + stats_acc" where
  "stats_item mapping acc =
     ebind (py_get mapping ''confidence_score'' (PInt 0)) (\<lambda>confidence.
     ebind (py_add (total_confidence acc) confidence) (\<lambda>total.
     ebind (py_get mapping ''asqa_validation'' (PDict [])) (\<lambda>asqa_validation.
     ebind (py_get asqa_validation ''standard_1_8_compliance'' (PStr ''MINIMAL'')) (\<lambda>compliance.
       Inr (if compliance = PStr ''FULL''
            then acc\<lparr>total_confidence := total, full_compliance := Suc (full_compliance acc)\<rparr>
            else if compliance = PStr ''PARTIAL''
            then acc\<lparr>total_confidence := total, partial_compliance := Suc (partial_compliance acc)\<rparr>
            else acc\<lparr>total_confidence := total, minimal_compliance := Suc (minimal_compliance acc)\<rparr>)))))"

definition stats_category :: "pyval \<Rightarrow> string \<Rightarrow> stats_acc \<Rightarrow> pyexn + stats_acc" where
  "stats_category mapping_analysis category acc =
     ebind (py_get mapping_analysis category (PList [])) (\<lambda>mappings.
     ebind (py_len mappings) (\<lambda>n.
     ebind (py_iter mappings) (\<lambda>items.
       efold stats_item items (acc\<lparr>total_mappings := total_mappings acc + n\<rparr>))))"

definition mapping_categories :: "string list" where
  "mapping_categories =
     [''mapped_elements'', ''mapped_performance_criteria'',
      ''mapped_performance_evidence'', ''mapped_knowledge_evidence'']"

definition average_confidence :: "stats_acc \<Rightarrow> pyval" where
  "average_confidence acc =
     (if 0 < total_mappings acc
      then (case num_value (total_confidence acc) of
              Some t \<Rightarrow> PFloat (py_round (t / of_nat (total_mappings acc)) 3)
            | None \<Rightarrow> PInt 0)
      else PInt 0)"

definition calculate_mapping_statistics :: "pyval \<Rightarrow> pyexn + pyval" where
  "calculate_mapping_statistics mapping_analysis =
     ebind (efold (stats_category mapping_analysis) mapping_categories
              \<lparr>total_mappings = 0, total_confidence = PInt 0, full_compliance = 0,
               partial_compliance = 0, minimal_compliance = 0\<rparr>) (\<lambda>acc.
       Inr (PDict
         [(''total_mappings'', PInt (int (total_mappings acc))),
          (''average_confidence'', average_confidence acc),
          (''asqa_compliance_distribution'',
             PDict [(''full'', PInt (int (full_compliance acc))),
                    (''partial'', PInt (int (partial_compliance acc))),
                    (''minimal'', PInt (int (minimal_compliance acc)))])]))"

subsection \<open>\<open>_filter_empty_mappings\<close>\<close>

text \<open>
  \<open>[e for e in mapping_analysis[key] if e.get(id_key) and e.get(description_key)]\<close>,
  stored back under \<open>key\<close> when the key is there.
\<close>

fun efilter :: "('a \<Rightarrow> pyexn + bool) \<Rightarrow> 'a list \<Rightarrow> pyexn + 'a list" where
  "efilter f [] = Inr []"
| "efilter f (x # xs) =
     (case f x of
        Inl e \<Rightarrow> Inl e
      | Inr keep \<Rightarrow>
          (case efilter f xs of
             Inl e \<Rightarrow> Inl e
           | Inr ys \<Rightarrow> Inr (if keep then x # ys else ys)))"

definition has_id_and_description :: "string \<Rightarrow> string \<Rightarrow> pyval \<Rightarrow> pyexn + bool" where
  "has_id_and_description id_key description_key item =
     ebind (py_get item id_key PNone) (\<lambda>i.
       if \<not> truthy i then Inr False
       else ebind (py_get item description_key PNone) (\<lambda>d. Inr (truthy d)))"

definition filter_category :: "string \<Rightarrow> string \<Rightarrow> string \<Rightarrow> pyval \<Rightarrow> pyexn + pyval" where
  "filter_category key id_key description_key mapping_analysis =
     ebind (py_contains key mapping_analysis) (\<lambda>present.
       if \<not> present then Inr mapping_analysis
       else ebind (py_getitem mapping_analysis key) (\<lambda>v.
            ebind (py_iter v) (\<lambda>items.
            ebind (efilter (has_id_and_description id_key description_key) items) (\<lambda>kept.
              py_setitem mapping_analysis key (PList kept)))))"

definition filter_empty_mappings :: "pyval \<Rightarrow> pyexn + pyval" where
  "filter_empty_mappings mapping_data =
     ebind (py_contains ''mapping_analysis'' mapping_data) (\<lambda>present.
       if \<not> present then Inr mapping_data
       else ebind (py_getitem mapping_data ''mapping_analysis'') (\<lambda>ma.
            ebind (filter_category ''mapped_elements'' ''element_id'' ''element_description'' ma) (\<lambda>ma1.
            ebind (filter_category ''mapped_performance_criteria'' ''criterion_id''
                     ''criterion_description'' ma1) (\<lambda>ma2.
            ebind (filter_category ''mapped_performance_evidence'' ''evidence_id''
                     ''evidence_description'' ma2) (\<lambda>ma3.
            ebind (filter_category ''mapped_knowledge_evidence'' ''evidence_id''
                     ''evidence_description'' ma3) (\<lambda>ma4.
              py_setitem mapping_data ''mapping_analysis'' ma4))))))"

subsection \<open>\<open>_ensure_complete_mapping_structure\<close>\<close>

text \<open>
  Every step works on the one \<open>mapping_data\<close> object. \<open>mapping_analysis\<close> is the
  dictionary stored inside it, changed in place by the four \<open>setdefault\<close> calls and by
  \<open>_clean_mapping_ids\<close>; the model stores it back under its key after these steps.
\<close>

definition default_bloom_taxonomy :: pyval where
  "default_bloom_taxonomy =
     PDict [(''primary_level'', PStr ''UNDERSTAND''),
            (''cognitive_demand'', PStr ''MEDIUM''),
            (''asqa_assessment_suitability'', PStr ''GOOD'')]"

definition default_asqa_quality_assessment :: pyval where
  "default_asqa_quality_assessment =
     PDict [(''competency_focus_score'', PInt 4),
            (''authenticity_score'', PInt 3),
            (''sufficiency_score'', PInt 4),
            (''overall_quality_rating'', PStr ''HIGH'')]"

definition default_overall_assessment :: pyval where
  "default_overall_assessment =
     PDict [(''asqa_compliance_level'', PStr ''PARTIAL''),
            (''audit_readiness'', PStr ''NEEDS_REVIEW''),
            (''risk_assessment'', PStr ''MEDIUM'')]"

definition default_comprehensive_analysis :: pyval where
  "default_comprehensive_analysis =
     PDict [(''coverage_assessment'',
               PDict [(''element_coverage_completeness'', PStr ''PARTIAL''),
                      (''performance_criteria_alignment'', PStr ''MODERATE''),
                      (''evidence_requirement_satisfaction'', PStr ''PARTIAL'')]),
            (''priority_mappings'', PList []),
            (''mapping_tags'', PList [])]"

definition setdefault_all :: "(string \<times> pyval) list \<Rightarrow> pyval \<Rightarrow> pyexn + pyval" where
  "setdefault_all defaults d =
     efold (\<lambda>kv acc. ebind (py_setdefault acc (fst kv) (snd kv)) (\<lambda>r. Inr (fst r))) defaults d"

definition ensure_complete_mapping_structure :: "pyval \<Rightarrow> pyval \<Rightarrow> pyval \<Rightarrow> pyexn + pyval" where
  "ensure_complete_mapping_structure mapping_data question uoc_data =
     ebind (py_get question ''text'' (PStr [])) (\<lambda>text.
     ebind (py_setdefault mapping_data ''question_text'' text) (\<lambda>r1.
     ebind (py_get question ''choices'' (PList [])) (\<lambda>choices.
     ebind (py_setdefault (fst r1) ''question_choices'' choices) (\<lambda>r2.
     ebind (setdefault_all
              [(''assessment_type'', PStr ''Mixed''),
               (''bloom_taxonomy'', default_bloom_taxonomy),
               (''asqa_quality_assessment'', default_asqa_quality_assessment)] (fst r2)) (\<lambda>md3.
     ebind (py_setdefault md3 ''mapping_analysis'' (PDict [])) (\<lambda>r4.
     ebind (setdefault_all
              [(''mapped_elements'', PList []),
               (''mapped_performance_criteria'', PList []),
               (''mapped_performance_evidence'', PList []),
               (''mapped_knowledge_evidence'', PList [])] (snd r4)) (\<lambda>ma5.
     ebind (clean_mapping_ids ma5) (\<lambda>ma6.
     ebind (log_id_validation_issues ma6) (\<lambda>_.
     ebind (py_setitem (fst r4) ''mapping_analysis'' ma6) (\<lambda>md7.
     ebind (py_setdefault md7 ''overall_assessment'' default_overall_assessment) (\<lambda>r8.
     ebind (py_contains ''comprehensive_analysis'' (fst r8)) (\<lambda>has_ca.
     ebind (if has_ca then Inr (fst r8)
            else py_setitem (fst r8) ''comprehensive_analysis'' default_comprehensive_analysis) (\<lambda>md9.
     ebind (py_get md9 ''mapping_analysis'' (PDict [])) (\<lambda>ma10.
     ebind (calculate_mapping_statistics ma10) (\<lambda>stats.
     ebind (py_setitem md9 ''mapping_statistics'' stats) (\<lambda>md11.
       filter_empty_mappings md11))))))))))))))))"

subsection \<open>Accepting a parsed reply\<close>

text \<open>
  The part of \<open>_parse_comprehensive_ai_response_robust\<close> that follows \<open>json.loads\<close>:
  the reply is validated, completed, stamped with the audit trail and returned; a reply
  that fails the validation, and any exception on the way, gives \<open>None\<close>. The time stamp
  \<open>datetime.now().isoformat()\<close> is the parameter \<open>now\<close>.
\<close>

definition audit_trail :: "string \<Rightarrow> pyval" where
  "audit_trail now =
     PDict [(''mapped_by'', PStr ''AI_System_v2.0_Enhanced''),
            (''mapping_timestamp'', PStr now),
            (''validation_checks_passed'', PList [PStr ''structure'', PStr ''basic_validation'']),
            (''parsing_method'', PStr ''robust_json_cleanup'')]"

definition accept_mapping_data :: "pyval \<Rightarrow> pyval \<Rightarrow> pyval \<Rightarrow> string \<Rightarrow> pyval option" where
  "accept_mapping_data mapping_data question uoc_data now =
     (case ebind (validate_basic_mapping_structure mapping_data) (\<lambda>ok.
             if ok
             then ebind (ensure_complete_mapping_structure mapping_data question uoc_data) (\<lambda>md.
                  ebind (py_setitem md ''audit_trail'' (audit_trail now)) (\<lambda>md'.
                  ebind (py_setitem md' ''mapping_source'' (PStr ''ai'')) (\<lambda>md''.
                    Inr (Some md''))))
             else Inr None) of
        Inl e \<Rightarrow> None
      | Inr r \<Rightarrow> r)"

section \<open>Text: characters, string methods and regular expressions\<close>

text \<open>
  The character classes of Python on the code points below 256: \<open>str.isspace\<close> and
  \<open>\s\<close> (tab to carriage return, the separators \<open>0x1c\<close> to \<open>0x1f\<close>, the space,
  \<open>0x85\<close> and the no-break space), \<open>\w\<close> (the underscore and what is a letter or a
  number of some kind), and \<open>str.lower\<close>.
\<close>

definition newline :: char where
  "newline = CHR 0x0A"

definition is_space :: "char \<Rightarrow> bool" where
  "is_space c =
     (let n = code_point c
      in (9 \<le> n \<and> n \<le> 13) \<or> (28 \<le> n \<and> n \<le> 32) \<or> n = 0x85 \<or> n = 0xA0)"

definition is_upper :: "char \<Rightarrow> bool" where
  "is_upper c = (65 \<le> code_point c \<and> code_point c \<le> 90)"

definition is_lower :: "char \<Rightarrow> bool" where
  "is_lower c = (97 \<le> code_point c \<and> code_point c \<le> 122)"

definition is_word :: "char \<Rightarrow> bool" where
  "is_word c =
     (let n = code_point c
      in is_decimal c \<or> is_upper c \<or> is_lower c \<or> c = CHR ''_''
         \<or> n = 0xAA \<or> n = 0xB2 \<or> n = 0xB3 \<or> n = 0xB5 \<or> n = 0xB9 \<or> n = 0xBA
         \<or> (0xBC \<le> n \<and> n \<le> 0xBE) \<or> (0xC0 \<le> n \<and> n \<le> 0xD6)
         \<or> (0xD8 \<le> n \<and> n \<le> 0xF6) \<or> 0xF8 \<le> n)"

definition lower_char :: "char \<Rightarrow> char" where
  "lower_char c =
     (let n = code_point c
      in if is_upper c \<or> (0xC0 \<le> n \<and> n \<le> 0xDE \<and> n \<noteq> 0xD7) then char_of (n + 32) else c)"

definition py_lower :: "string \<Rightarrow> string" where
  "py_lower s = map lower_char s"

text \<open>\<open>s.strip()\<close>, \<open>s.split('\n')\<close>, \<open>'\n'.join(xs)\<close>, \<open>s.find(c)\<close> and \<open>s.rfind(c)\<close>.\<close>

definition strip :: "string \<Rightarrow> string" where
  "strip s = rev (dropWhile is_space (rev (dropWhile is_space s)))"

fun split_on :: "char \<Rightarrow> string \<Rightarrow> string list" where
  "split_on sep [] = [[]]"
| "split_on sep (c # cs) =
     (if c = sep then [] # split_on sep cs
      else (case split_on sep cs of
              [] \<Rightarrow> [[c]]
            | piece # pieces \<Rightarrow> (c # piece) # pieces))"

fun join :: "string \<Rightarrow> string list \<Rightarrow> string" where
  "join sep [] = []"
| "join sep [x] = x"
| "join sep (x # y # ys) = x @ sep @ join sep (y # ys)"

fun find_char :: "char \<Rightarrow> string \<Rightarrow> nat option" where
  "find_char c [] = None"
| "find_char c (x # xs) =
     (if x = c then Some 0 else map_option Suc (find_char c xs))"

definition rfind_char :: "char \<Rightarrow> string \<Rightarrow> nat option" where
  "rfind_char c s =
     (case find_char c (rev s) of
        None \<Rightarrow> None
      | Some i \<Rightarrow> Some (length s - 1 - i))"

subsection \<open>Regular expressions with Python's backtracking order\<close>

text \<open>
  The patterns the agents use are built from character classes, sequence,
  alternation, greedy and lazy repetition, capturing groups, the anchors \<open>^\<close> and
  \<open>$\<close> (without \<open>re.MULTILINE\<close>), lookahead and a one-character negative
  lookbehind. A pattern is matched as Python's engine does it: the matcher returns
  every way to match from a position, in the order in which backtracking tries them, so
  the first one is the match Python reports.
\<close>

datatype rx =
  Cls "char \<Rightarrow> bool"
  | Eps
  | Seq rx rx
  | Alt rx rx
  | Star rx
  | StarLazy rx
  | Grp nat rx
  | Bol
  | Eol
  | Ahead rx
  | NotBehind "char \<Rightarrow> bool"

text \<open>
  A position in the subject: the text before it (last character first), the text
  from it on, and the groups captured so far (latest first).
\<close>

record mstate =
  prior :: string
  rest :: string
  caps :: "(nat \<times> string) list"

text \<open>
  Repetition of a body \<open>f\<close>: the greedy form tries one more round first, the lazy
  form tries to stop first. A round that consumes nothing is not repeated. The first
  argument bounds the number of rounds; the length of the remaining text is enough.
\<close>

fun star_greedy :: "nat \<Rightarrow> (mstate \<Rightarrow> mstate list) \<Rightarrow> mstate \<Rightarrow> mstate list" where
  "star_greedy 0 f st = [st]"
| "star_greedy (Suc n) f st =
     concat (map (\<lambda>st'. if length (rest st') < length (rest st) then star_greedy n f st' else [])
               (f st)) @ [st]"

fun star_lazy :: "nat \<Rightarrow> (mstate \<Rightarrow> mstate list) \<Rightarrow> mstate \<Rightarrow> mstate list" where
  "star_lazy 0 f st = [st]"
| "star_lazy (Suc n) f st =
     st # concat (map (\<lambda>st'. if length (rest st') < length (rest st) then star_lazy n f st' else [])
                   (f st))"

definition consumed :: "mstate \<Rightarrow> mstate \<Rightarrow> string" where
  "consumed st st' = rev (take (length (prior st') - length (prior st)) (prior st'))"

primrec rmatch :: "rx \<Rightarrow> mstate \<Rightarrow> mstate list" where
  "rmatch (Cls p) = (\<lambda>st.
     case rest st of
       [] \<Rightarrow> []
     | c # cs \<Rightarrow> if p c then [st\<lparr>prior := c # prior st, rest := cs\<rparr>] else [])"
| "rmatch Eps = (\<lambda>st. [st])"
| "rmatch (Seq a b) = (\<lambda>st. concat (map (rmatch b) (rmatch a st)))"
| "rmatch (Alt a b) = (\<lambda>st. rmatch a st @ rmatch b st)"
| "rmatch (Star r) = (\<lambda>st. star_greedy (length (rest st)) (rmatch r) st)"
| "rmatch (StarLazy r) = (\<lambda>st. star_lazy (length (rest st)) (rmatch r) st)"
| "rmatch (Grp i r) = (\<lambda>st. map (\<lambda>st'. st'\<lparr>caps := (i, consumed st st') # caps st'\<rparr>) (rmatch r st))"
| "rmatch Bol = (\<lambda>st. if prior st = [] then [st] else [])"
| "rmatch Eol = (\<lambda>st. if rest st = [] \<or> rest st = [newline] then [st] else [])"
| "rmatch (Ahead r) = (\<lambda>st. if rmatch r st = [] then [] else [st])"
| "rmatch (NotBehind p) = (\<lambda>st.
     case prior st of
       [] \<Rightarrow> [st]
     | c # cs \<Rightarrow> if p c then [] else [st])"

text \<open>The match at one position, if there is one.\<close>

definition match_at :: "rx \<Rightarrow> string \<Rightarrow> string \<Rightarrow> mstate option" where
  "match_at r bef s =
     (case rmatch r \<lparr>prior = bef, rest = s, caps = []\<rparr> of
        [] \<Rightarrow> None
      | st # _ \<Rightarrow> Some st)"

text \<open>\<open>re.match(r, s)\<close> and \<open>m.group(i)\<close>.\<close>

definition re_match :: "rx \<Rightarrow> string \<Rightarrow> mstate option" where
  "re_match r s = match_at r [] s"

definition group :: "mstate \<Rightarrow> nat \<Rightarrow> string" where
  "group m i = (case map_of (caps m) i of None \<Rightarrow> [] | Some g \<Rightarrow> g)"

text \<open>\<open>re.search(r, s)\<close>: the match at the first position that has one.\<close>

fun search_from :: "rx \<Rightarrow> string \<Rightarrow> string \<Rightarrow> mstate option" where
  "search_from r bef [] = match_at r bef []"
| "search_from r bef (c # cs) =
     (case match_at r bef (c # cs) of
        Some m \<Rightarrow> Some m
      | None \<Rightarrow> search_from r (c # bef) cs)"

definition re_search :: "rx \<Rightarrow> string \<Rightarrow> mstate option" where
  "re_search r s = search_from r [] s"

text \<open>
  \<open>re.sub(r, repl, s)\<close> and \<open>re.findall(r, s)\<close> scan the subject from left to right
  and resume after each match. None of the patterns of the agents matches the empty
  string; the scan steps over one character after an empty match. The first argument
  bounds the number of steps; the length of the subject plus one is enough.
\<close>

fun sub_from :: "nat \<Rightarrow> rx \<Rightarrow> (mstate \<Rightarrow> string) \<Rightarrow> string \<Rightarrow> string \<Rightarrow> string" where
  "sub_from 0 r repl bef s = s"
| "sub_from (Suc n) r repl bef s =
     (case match_at r bef s of
        Some m \<Rightarrow>
          if length (rest m) < length s then repl m @ sub_from n r repl (prior m) (rest m)
          else (case s of
                  [] \<Rightarrow> repl m
                | c # cs \<Rightarrow> repl m @ c # sub_from n r repl (c # bef) cs)
      | None \<Rightarrow>
          (case s of
             [] \<Rightarrow> []
           | c # cs \<Rightarrow> c # sub_from n r repl (c # bef) cs))"

definition re_sub :: "rx \<Rightarrow> (mstate \<Rightarrow> string) \<Rightarrow> string \<Rightarrow> string" where
  "re_sub r repl s = sub_from (Suc (length s)) r repl [] s"

fun findall_from :: "nat \<Rightarrow> rx \<Rightarrow> string \<Rightarrow> string \<Rightarrow> string list" where
  "findall_from 0 r bef s = []"
| "findall_from (Suc n) r bef s =
     (case match_at r bef s of
        Some m \<Rightarrow>
          if length (rest m) < length s
          then consumed \<lparr>prior = bef, rest = s, caps = []\<rparr> m # findall_from n r (prior m) (rest m)
          else (case s of
                  [] \<Rightarrow> [[]]
                | c # cs \<Rightarrow> [] # findall_from n r (c # bef) cs)
      | None \<Rightarrow>
          (case s of
             [] \<Rightarrow> []
           | c # cs \<Rightarrow> findall_from n r (c # bef) cs))"

definition re_findall :: "rx \<Rightarrow> string \<Rightarrow> string list" where
  "re_findall r s = findall_from (Suc (length s)) r [] s"

text \<open>
  \<open>re.split(r, s)\<close> for a pattern that is a lookahead only: the subject is cut at every
  position where the lookahead holds, the start included (which gives an empty first
  piece), and nothing is removed.
\<close>

fun split_ahead :: "rx \<Rightarrow> string \<Rightarrow> string \<Rightarrow> string \<Rightarrow> string list" where
  "split_ahead r bef cur [] = [rev cur]"
| "split_ahead r bef cur (c # cs) =
     (if match_at r bef (c # cs) \<noteq> None
      then rev cur # split_ahead r (c # bef) [c] cs
      else split_ahead r (c # bef) (c # cur) cs)"

definition re_split_ahead :: "rx \<Rightarrow> string \<Rightarrow> string list" where
  "re_split_ahead r s = split_ahead r [] [] s"

text \<open>The pieces patterns are written with.\<close>

definition rx_chr :: "char \<Rightarrow> rx" where
  "rx_chr c = Cls (\<lambda>x. x = c)"

definition rx_chr_ci :: "char \<Rightarrow> rx" where
  "rx_chr_ci c = Cls (\<lambda>x. lower_char x = lower_char c)"

definition rx_str :: "string \<Rightarrow> rx" where
  "rx_str s = foldr (\<lambda>c r. Seq (rx_chr c) r) s Eps"

definition rx_str_ci :: "string \<Rightarrow> rx" where
  "rx_str_ci s = foldr (\<lambda>c r. Seq (rx_chr_ci c) r) s Eps"

definition rx_range :: "char \<Rightarrow> char \<Rightarrow> rx" where
  "rx_range a b = Cls (\<lambda>x. code_point a \<le> code_point x \<and> code_point x \<le> code_point b)"

definition rx_range_ci :: "char \<Rightarrow> char \<Rightarrow> rx" where
  "rx_range_ci a b =
     Cls (\<lambda>x. (code_point a \<le> code_point x \<and> code_point x \<le> code_point b)
            \<or> (code_point (lower_char a) \<le> code_point (lower_char x)
                \<and> code_point (lower_char x) \<le> code_point (lower_char b)
                \<and> (is_upper x \<or> is_lower x)))"

definition rx_digit :: rx where
  "rx_digit = Cls is_decimal"

definition rx_space :: rx where
  "rx_space = Cls is_space"

definition rx_word :: rx where
  "rx_word = Cls is_word"

definition rx_dot :: rx where
  "rx_dot = Cls (\<lambda>x. x \<noteq> newline)"

definition Plus :: "rx \<Rightarrow> rx" where
  "Plus r = Seq r (Star r)"

definition PlusLazy :: "rx \<Rightarrow> rx" where
  "PlusLazy r = Seq r (StarLazy r)"

fun seqs :: "rx list \<Rightarrow> rx" where
  "seqs [] = Eps"
| "seqs [r] = r"
| "seqs (r # rs) = Seq r (seqs rs)"

section \<open>ExtractAgent: classification, choices and the span of a question\<close>

text \<open>\<open>str(n)\<close> for a natural number, as the f-strings of the agent print it.\<close>

function str_of_nat :: "nat \<Rightarrow> string" where
  "str_of_nat n =
     (if n < 10 then [char_of (48 + n)]
      else str_of_nat (n div 10) @ [char_of (48 + n mod 10)])"
  by pat_completeness auto
termination
  by (relation "measure id") auto

declare str_of_nat.simps [simp del]

definition any_word_in :: "string list \<Rightarrow> string \<Rightarrow> bool" where
  "any_word_in ws s = list_ex (\<lambda>w. is_substring w s) ws"

subsection \<open>\<open>_classify_question_type\<close>\<close>

text \<open>
  The seven choice patterns, searched with \<open>re.IGNORECASE\<close>:
  \<^verbatim>\<open>[A-D]\.\s*\w+  [1-4]\.\s*\w+  [a-d]\)\s*\w+  [1-4]\)\s*\w+  [A-D]\)\s*\w+
  \([A-D]\)\s*\w+  \([1-4]\)\s*\w+\<close>
\<close>

definition classify_choice_patterns :: "rx list" where
  "classify_choice_patterns =
     [seqs [rx_range_ci CHR ''A'' CHR ''D'', rx_chr CHR ''.'', Star rx_space, Plus rx_word],
      seqs [rx_range_ci CHR ''1'' CHR ''4'', rx_chr CHR ''.'', Star rx_space, Plus rx_word],
      seqs [rx_range_ci CHR ''a'' CHR ''d'', rx_chr CHR '')'', Star rx_space, Plus rx_word],
      seqs [rx_range_ci CHR ''1'' CHR ''4'', rx_chr CHR '')'', Star rx_space, Plus rx_word],
      seqs [rx_range_ci CHR ''A'' CHR ''D'', rx_chr CHR '')'', Star rx_space, Plus rx_word],
      seqs [rx_chr CHR ''('', rx_range_ci CHR ''A'' CHR ''D'', rx_chr CHR '')'', Star rx_space,
            Plus rx_word],
      seqs [rx_chr CHR ''('', rx_range_ci CHR ''1'' CHR ''4'', rx_chr CHR '')'', Star rx_space,
            Plus rx_word]]"

definition classify_question_type :: "string \<Rightarrow> string" where
  "classify_question_type question_text =
     (let text_lower = py_lower question_text in
      if list_ex (\<lambda>p. re_search p question_text \<noteq> None) classify_choice_patterns then ''mcq''
      else if any_word_in [''multiple choice'', ''select'', ''choose'', ''mcq'',
                           ''select the best'', ''choose the correct''] text_lower then ''mcq''
      else if any_word_in [''true'', ''false'', ''t/f''] text_lower then ''true_false''
      else if any_word_in [''describe'', ''explain'', ''discuss'', ''analyze'', ''elaborate'']
                text_lower then ''essay''
      else if any_word_in [''list'', ''name'', ''identify'', ''state''] text_lower
           then ''short_answer''
      else if any_word_in [''how'', ''what'', ''why'', ''when'', ''where'', ''which'', ''who'']
                text_lower \<and> CHR ''?'' \<in> set question_text then ''short_answer''
      else if any_word_in [''scenario'', ''case study'', ''situation''] text_lower
           then ''scenario''
      else if any_word_in [''demonstrate'', ''show'', ''perform'', ''practice''] text_lower
           then ''practical''
      else if CHR ''?'' \<in> set question_text then ''question''
      else ''unknown'')"

subsection \<open>\<open>_extract_choices\<close>\<close>

text \<open>
  The nine choice-line patterns, matched with \<open>re.IGNORECASE\<close>; each is a marker,
  \<open>\s*\<close>, and the group \<open>(.+)\<close> up to \<open>$\<close>. The third class is written in the
  source with the three characters \<open>U+00E2\<close>, \<open>U+20AC\<close>, \<open>U+00A2\<close> after the dash;
  the second of them is outside the characters of this model.
\<close>

definition choice_line :: "rx list \<Rightarrow> rx" where
  "choice_line marker = seqs ([Bol] @ marker @ [Star rx_space, Grp 1 (Plus rx_dot), Eol])"

definition bullet_class :: rx where
  "bullet_class =
     Cls (\<lambda>x. x = CHR ''-'' \<or> x = CHR 0xE2 \<or> x = CHR 0xC2 \<or> x = CHR 0xA2)"

definition choice_patterns :: "rx list" where
  "choice_patterns =
     [choice_line [rx_range_ci CHR ''A'' CHR ''D'', rx_chr CHR ''.''],
      choice_line [rx_range_ci CHR ''1'' CHR ''4'', rx_chr CHR ''.''],
      choice_line [bullet_class],
      choice_line [rx_range_ci CHR ''a'' CHR ''d'', rx_chr CHR '')''],
      choice_line [rx_range_ci CHR ''1'' CHR ''4'', rx_chr CHR '')''],
      choice_line [rx_range_ci CHR ''A'' CHR ''D'', rx_chr CHR '')''],
      choice_line [rx_range_ci CHR ''a'' CHR ''d'', rx_chr CHR ''.''],
      choice_line [rx_chr CHR ''('', rx_range_ci CHR ''A'' CHR ''D'', rx_chr CHR '')''],
      choice_line [rx_chr CHR ''('', rx_range_ci CHR ''1'' CHR ''4'', rx_chr CHR '')'']]"

text \<open>
  \<^verbatim>\<open>re.sub(r'^[A-D]\.\s*[A-D]\.\s*', 'A. ', choice_text)\<close> and the same with
  \<open>[1-4]\<close> and \<open>'1. '\<close>.
\<close>

definition doubled_marker :: "char \<Rightarrow> char \<Rightarrow> rx" where
  "doubled_marker a b =
     seqs [Bol, rx_range a b, rx_chr CHR ''.'', Star rx_space,
           rx_range a b, rx_chr CHR ''.'', Star rx_space]"

definition clean_choice_text :: "string \<Rightarrow> string" where
  "clean_choice_text choice_text =
     re_sub (doubled_marker CHR ''1'' CHR ''4'') (\<lambda>m. ''1. '')
       (re_sub (doubled_marker CHR ''A'' CHR ''D'') (\<lambda>m. ''A. '') choice_text)"

text \<open>
  The inner loop over the patterns: the first pattern that matches the line ends the
  loop, and its group is a choice when it is longer than two characters.
\<close>

fun first_choice :: "rx list \<Rightarrow> string \<Rightarrow> string list" where
  "first_choice [] line = []"
| "first_choice (p # ps) line =
     (case re_match p line of
        Some m \<Rightarrow>
          (let choice_text = strip (group m 1)
           in if 2 < length choice_text then [clean_choice_text choice_text] else [])
      | None \<Rightarrow> first_choice ps line)"

definition extract_choices :: "string \<Rightarrow> string \<Rightarrow> string list" where
  "extract_choices question_text question_type =
     (if question_type \<noteq> ''mcq'' then []
      else concat (map (\<lambda>raw. let line = strip raw
                              in if line = [] then [] else first_choice choice_patterns line)
                     (split_on newline question_text)))"

subsection \<open>\<open>_get_full_question_text\<close>\<close>

text \<open>
  The patterns that end the span of a question:
  \<^verbatim>\<open>^\d+\.\s*\d+\s*\w+  ^\d+\.\s*\w+  ^[A-Z]\.\s*\w+  ^Question\s+\d+:  ^Q\d+\.\s*\w+\<close>
  and, after an empty line, the second, fourth and fifth of them on the next line.
\<close>

definition boundary_sub :: rx where
  "boundary_sub =
     seqs [Bol, Plus rx_digit, rx_chr CHR ''.'', Star rx_space, Plus rx_digit, Star rx_space,
           Plus rx_word]"

definition boundary_main :: rx where
  "boundary_main = seqs [Bol, Plus rx_digit, rx_chr CHR ''.'', Star rx_space, Plus rx_word]"

definition boundary_lettered :: rx where
  "boundary_lettered =
     seqs [Bol, rx_range CHR ''A'' CHR ''Z'', rx_chr CHR ''.'', Star rx_space, Plus rx_word]"

definition boundary_question :: rx where
  "boundary_question =
     seqs [Bol, rx_str ''Question'', Plus rx_space, Plus rx_digit, rx_chr CHR '':'']"

definition boundary_q :: rx where
  "boundary_q =
     seqs [Bol, rx_chr CHR ''Q'', Plus rx_digit, rx_chr CHR ''.'', Star rx_space, Plus rx_word]"

definition matches :: "rx \<Rightarrow> string \<Rightarrow> bool" where
  "matches p s = (re_match p s \<noteq> None)"

text \<open>
  The \<open>while\<close> loop over the lines that follow the question line; \<open>acc\<close> is
  \<open>question_lines\<close>, never empty.
\<close>

fun collect_question_lines :: "string list \<Rightarrow> string list \<Rightarrow> string list" where
  "collect_question_lines acc [] = acc"
| "collect_question_lines acc (raw # others) =
     (let line = strip raw in
      if matches boundary_sub line \<or> matches boundary_main line \<or> matches boundary_lettered line
         \<or> matches boundary_question line \<or> matches boundary_q line
      then acc
      else if line = []
              \<and> (case others of
                    [] \<Rightarrow> False
                  | next_raw # _ \<Rightarrow>
                      (let next_line = strip next_raw
                       in matches boundary_main next_line \<or> matches boundary_question next_line
                          \<or> matches boundary_q next_line))
      then acc
      else if line \<noteq> [] \<or> (acc \<noteq> [] \<and> last acc \<noteq> [])
      then collect_question_lines (acc @ [line]) others
      else collect_question_lines acc others)"

text \<open>
  The function is called with the list of lines and the index of a line of the list;
  the model takes that line and the lines after it.
\<close>

definition get_full_question_text :: "string \<Rightarrow> string list \<Rightarrow> string" where
  "get_full_question_text start_raw following =
     strip (join [newline] (collect_question_lines [strip start_raw] following))"

section \<open>ExtractAgent: question records\<close>

text \<open>
  A question is a dictionary. \<open>_validate_questions\<close> gives every question the keys it
  lacks; \<open>i\<close> is the index of the question in the list. When an item is not a
  dictionary the source leaves the loop by an exception and returns the list as it is
  then: the items before it validated, the others untouched.
\<close>

definition set_if_missing :: "string \<Rightarrow> pyval \<Rightarrow> pyval \<Rightarrow> pyexn + pyval" where
  "set_if_missing k v q =
     ebind (py_contains k q) (\<lambda>present. if present then Inr q else py_setitem q k v)"

definition validate_question :: "nat \<Rightarrow> pyval \<Rightarrow> pyexn + pyval" where
  "validate_question i question =
     ebind (py_contains ''question_id'' question) (\<lambda>has_qid.
     ebind (if has_qid then Inr question
            else ebind (py_get question ''id'' (PStr (''Q'' @ str_of_nat (i + 1)))) (\<lambda>v.
                   py_setitem question ''question_id'' v)) (\<lambda>q1.
     ebind (py_contains ''id'' q1) (\<lambda>has_id.
     ebind (if has_id then Inr q1
            else ebind (py_getitem q1 ''question_id'') (\<lambda>v. py_setitem q1 ''id'' v)) (\<lambda>q2.
     ebind (py_contains ''text'' q2) (\<lambda>has_text.
     ebind (if \<not> has_text then Inr True
            else ebind (py_getitem q2 ''text'') (\<lambda>t. Inr (\<not> truthy t))) (\<lambda>no_text.
     ebind (if no_text then py_setitem q2 ''text'' (PStr (''Question '' @ str_of_nat (i + 1)))
            else Inr q2) (\<lambda>q3.
     ebind (set_if_missing ''question_number'' (PStr (str_of_nat (i + 1))) q3) (\<lambda>q4.
     ebind (set_if_missing ''type'' (PStr ''unknown'') q4) (\<lambda>q5.
     ebind (py_contains ''question_type'' q5) (\<lambda>has_qtype.
     ebind (if has_qtype then Inr q5
            else ebind (py_getitem q5 ''type'') (\<lambda>v. py_setitem q5 ''question_type'' v)) (\<lambda>q6.
     ebind (set_if_missing ''choices'' (PList []) q6) (\<lambda>q7.
     ebind (set_if_missing ''confidence'' (PStr ''medium'') q7) (\<lambda>q8.
     ebind (set_if_missing ''line_number'' (PInt (int (i + 1))) q8) (\<lambda>q9.
       set_if_missing ''pattern_used'' (PStr ''validated'') q9))))))))))))))"

fun validate_from :: "nat \<Rightarrow> pyval list \<Rightarrow> pyval list" where
  "validate_from i [] = []"
| "validate_from i (q # qs) =
     (case validate_question i q of
        Inl e \<Rightarrow> q # qs
      | Inr q' \<Rightarrow> q' # validate_from (Suc i) qs)"

definition validate_questions :: "pyval list \<Rightarrow> pyval list" where
  "validate_questions questions = validate_from 0 questions"

subsection \<open>\<open>_extract_potential_questions\<close>\<close>

definition potential_question :: "nat \<Rightarrow> nat \<Rightarrow> string \<Rightarrow> pyval" where
  "potential_question found i line =
     PDict [(''id'', PStr (''Q'' @ str_of_nat (found + 1))),
            (''question_id'', PStr (''Q'' @ str_of_nat (found + 1))),
            (''text'', PStr line),
            (''question_number'', PStr (str_of_nat (found + 1))),
            (''line_number'', PInt (int (i + 1))),
            (''pattern_used'', PStr ''question_detection''),
            (''type'', PStr (classify_question_type line)),
            (''question_type'', PStr (classify_question_type line)),
            (''choices'', PList [])]"

fun potential_from :: "nat \<Rightarrow> pyval list \<Rightarrow> string list \<Rightarrow> pyval list" where
  "potential_from i questions [] = questions"
| "potential_from i questions (raw # others) =
     (let line = strip raw in
      if line = [] then potential_from (Suc i) questions others
      else if endswith line ''?''
              \<or> any_word_in [''what'', ''how'', ''why'', ''when'', ''where'', ''which'', ''who'']
                   (py_lower line)
      then potential_from (Suc i)
             (questions @ [potential_question (length questions) i line]) others
      else potential_from (Suc i) questions others)"

definition extract_potential_questions :: "string \<Rightarrow> pyval list" where
  "extract_potential_questions text = potential_from 0 [] (split_on newline text)"

section \<open>ExtractAgent: pattern-based extraction (\<open>_extract_questions_from_text\<close>)\<close>

text \<open>
  The heading pattern \<^verbatim>\<open>^(\d+)\.\s*(.+?)$\<close> and the sub-question pattern
  \<^verbatim>\<open>^(\d+)\.\s*(\d+)\s*(.+?)$\<close>.
\<close>

definition main_pattern :: rx where
  "main_pattern =
     seqs [Bol, Grp 1 (Plus rx_digit), rx_chr CHR ''.'', Star rx_space,
           Grp 2 (PlusLazy rx_dot), Eol]"

definition sub_pattern :: rx where
  "sub_pattern =
     seqs [Bol, Grp 1 (Plus rx_digit), rx_chr CHR ''.'', Star rx_space,
           Grp 2 (Plus rx_digit), Star rx_space, Grp 3 (PlusLazy rx_dot), Eol]"

text \<open>
  \<open>self.question_patterns\<close>, matched with \<open>re.IGNORECASE\<close>:
  \<^verbatim>\<open>
  ^\d+\.\s*(.+?)(?=\n\d+\.|\n\n|$)
  ^\d+\.\s+\d+\s*(.+?)(?=\n\d+\.|\n\n|$)
  ^[A-Z]\.\s*(.+?)(?=\n[A-Z]\.|\n\n|$)
  ^Question\s+\d+:\s*(.+?)(?=\nQuestion|\n\n|$)
  ^Q\d+\.\s*(.+?)(?=\nQ\d+|\n\n|$)
  \<close>
  Each comes with its source text, which the agent stores as \<open>pattern_used\<close>.
\<close>

definition until_boundary :: "rx \<Rightarrow> rx" where
  "until_boundary next_question =
     Seq (Grp 1 (PlusLazy rx_dot))
         (Ahead (Alt (Seq (rx_chr newline) next_question)
                     (Alt (Seq (rx_chr newline) (rx_chr newline)) Eol)))"

definition backslash :: string where
  "backslash = [CHR 0x5C]"

definition question_patterns :: "(string \<times> rx) list" where
  "question_patterns =
     [(''^'' @ backslash @ ''d+'' @ backslash @ ''.'' @ backslash @ ''s*(.+?)(?=''
         @ backslash @ ''n'' @ backslash @ ''d+'' @ backslash @ ''.|'' @ backslash @ ''n''
         @ backslash @ ''n|$)'',
       seqs [Bol, Plus rx_digit, rx_chr CHR ''.'', Star rx_space,
             until_boundary (Seq (Plus rx_digit) (rx_chr CHR ''.''))]),
      (''^'' @ backslash @ ''d+'' @ backslash @ ''.'' @ backslash @ ''s+'' @ backslash @ ''d+''
         @ backslash @ ''s*(.+?)(?='' @ backslash @ ''n'' @ backslash @ ''d+'' @ backslash
         @ ''.|'' @ backslash @ ''n'' @ backslash @ ''n|$)'',
       seqs [Bol, Plus rx_digit, rx_chr CHR ''.'', Plus rx_space, Plus rx_digit, Star rx_space,
             until_boundary (Seq (Plus rx_digit) (rx_chr CHR ''.''))]),
      (''^[A-Z]'' @ backslash @ ''.'' @ backslash @ ''s*(.+?)(?='' @ backslash @ ''n[A-Z]''
         @ backslash @ ''.|'' @ backslash @ ''n'' @ backslash @ ''n|$)'',
       seqs [Bol, rx_range_ci CHR ''A'' CHR ''Z'', rx_chr CHR ''.'', Star rx_space,
             until_boundary (Seq (rx_range_ci CHR ''A'' CHR ''Z'') (rx_chr CHR ''.''))]),
      (''^Question'' @ backslash @ ''s+'' @ backslash @ ''d+:'' @ backslash @ ''s*(.+?)(?=''
         @ backslash @ ''nQuestion|'' @ backslash @ ''n'' @ backslash @ ''n|$)'',
       seqs [Bol, rx_str_ci ''Question'', Plus rx_space, Plus rx_digit, rx_chr CHR '':'',
             Star rx_space, until_boundary (rx_str_ci ''Question'')]),
      (''^Q'' @ backslash @ ''d+'' @ backslash @ ''.'' @ backslash @ ''s*(.+?)(?=''
         @ backslash @ ''nQ'' @ backslash @ ''d+|'' @ backslash @ ''n'' @ backslash @ ''n|$)'',
       seqs [Bol, rx_chr_ci CHR ''Q'', Plus rx_digit, rx_chr CHR ''.'', Star rx_space,
             until_boundary (Seq (rx_chr_ci CHR ''Q'') (Plus rx_digit))])]"

text \<open>
  The state of the loop over the lines. \<open>main_questions\<close> maps a question number to
  its heading, which is not in \<open>questions\<close>, or to the place in \<open>questions\<close> of the
  placeholder made for it: in the source the placeholder is one object, reachable from
  both, and a sub-question appended to its \<open>sub_questions\<close> shows in \<open>questions\<close>.
\<close>

datatype main_ref = Heading pyval | Placeholder nat

record extract_state =
  questions :: "pyval list"
  question_counter :: nat
  used_ids :: "string list"
  main_questions :: "(string \<times> main_ref) list"

text \<open>
  \<open>while candidate in used_ids: counter += 1\<close>. The loop ends because \<open>used_ids\<close>
  is finite; the first argument bounds the rounds, and one more than the number of used
  ids is enough.
\<close>

fun first_free :: "nat \<Rightarrow> (nat \<Rightarrow> string) \<Rightarrow> string list \<Rightarrow> nat \<Rightarrow> nat" where
  "first_free 0 name used c = c"
| "first_free (Suc n) name used c =
     (if name c \<in> set used then first_free n name used (Suc c) else c)"

definition append_sub_question :: "pyval \<Rightarrow> pyval \<Rightarrow> pyval" where
  "append_sub_question main sub_question =
     (case main of
        PDict d \<Rightarrow>
          (case map_of d ''sub_questions'' of
             Some (PList subs) \<Rightarrow>
               PDict (AList.update ''sub_questions'' (PList (subs @ [sub_question])) d)
           | _ \<Rightarrow> main)
      | _ \<Rightarrow> main)"

definition heading_record :: "string \<Rightarrow> string \<Rightarrow> nat \<Rightarrow> pyval" where
  "heading_record question_num question_text i =
     PDict [(''id'', PStr (''Q'' @ question_num)),
            (''question_id'', PStr (''Q'' @ question_num)),
            (''text'', PStr question_text),
            (''question_number'', PStr question_num),
            (''line_number'', PInt (int (i + 1))),
            (''pattern_used'', PStr ''question_heading''),
            (''type'', PStr ''heading''),
            (''question_type'', PStr ''topic''),
            (''sub_questions'', PList [])]"

definition sub_question_record ::
    "string \<Rightarrow> string \<Rightarrow> string \<Rightarrow> string \<Rightarrow> nat \<Rightarrow> pyval" where
  "sub_question_record sub_question_id main_num sub_num sub_text i =
     (let question_type = classify_question_type sub_text in
      PDict [(''id'', PStr sub_question_id),
             (''question_id'', PStr sub_question_id),
             (''text'', PStr sub_text),
             (''question_number'', PStr (main_num @ ''.'' @ sub_num)),
             (''line_number'', PInt (int (i + 1))),
             (''pattern_used'', PStr ''sub_question''),
             (''type'', PStr question_type),
             (''question_type'', PStr question_type),
             (''parent_question'', PStr (''Q'' @ main_num)),
             (''choices'',
                PList (if question_type = ''mcq''
                       then map PStr (extract_choices sub_text question_type) else []))])"

definition placeholder_record :: "string \<Rightarrow> nat \<Rightarrow> pyval \<Rightarrow> pyval" where
  "placeholder_record main_num i sub_question =
     PDict [(''id'', PStr (''Q'' @ main_num)),
            (''question_id'', PStr (''Q'' @ main_num)),
            (''text'', PStr (''Question '' @ main_num)),
            (''question_number'', PStr main_num),
            (''line_number'', PInt (int (i + 1))),
            (''pattern_used'', PStr ''main_question_placeholder''),
            (''type'', PStr ''unknown''),
            (''sub_questions'', PList [sub_question])]"

text \<open>The sub-question branch, taken when the text of the sub-question is long enough.\<close>

definition add_sub_question ::
    "string \<Rightarrow> string \<Rightarrow> string \<Rightarrow> nat \<Rightarrow> extract_state \<Rightarrow> extract_state" where
  "add_sub_question main_num sub_num sub_text i st =
     (let base = ''Q'' @ main_num @ ''.'' @ sub_num;
          sub_question_id =
            (if base \<in> set (used_ids st)
             then base @ ''_''
                  @ str_of_nat (first_free (Suc (length (used_ids st)))
                                  (\<lambda>c. base @ ''_'' @ str_of_nat c) (used_ids st) 1)
             else base);
          sub_question = sub_question_record sub_question_id main_num sub_num sub_text i;
          st1 = st\<lparr>used_ids := used_ids st @ [sub_question_id]\<rparr>;
          st2 =
            (case map_of (main_questions st1) main_num of
               Some (Heading h) \<Rightarrow>
                 st1\<lparr>main_questions :=
                       AList.update main_num (Heading (append_sub_question h sub_question))
                         (main_questions st1)\<rparr>
             | Some (Placeholder k) \<Rightarrow>
                 st1\<lparr>questions :=
                       (questions st1)[k := append_sub_question (questions st1 ! k) sub_question]\<rparr>
             | None \<Rightarrow>
                 st1\<lparr>main_questions :=
                       AList.update main_num (Placeholder (length (questions st1)))
                         (main_questions st1),
                     questions := questions st1 @ [placeholder_record main_num i sub_question]\<rparr>)
      in st2\<lparr>questions := questions st2 @ [sub_question]\<rparr>)"

text \<open>
  The loop over \<open>self.question_patterns\<close>: the first pattern whose group is longer
  than ten characters adds a question and ends the loop.
\<close>

definition pattern_question :: "string \<Rightarrow> string \<Rightarrow> string \<Rightarrow> nat \<Rightarrow> pyval" where
  "pattern_question question_id full_question_text pattern i =
     (let question_type = classify_question_type full_question_text in
      PDict [(''id'', PStr question_id),
             (''question_id'', PStr question_id),
             (''text'', PStr full_question_text),
             (''line_number'', PInt (int (i + 1))),
             (''pattern_used'', PStr pattern),
             (''type'', PStr question_type),
             (''question_type'', PStr question_type),
             (''choices'', PList (map PStr (extract_choices full_question_text question_type)))])"

fun try_patterns ::
    "(string \<times> rx) list \<Rightarrow> string \<Rightarrow> string \<Rightarrow> string list \<Rightarrow> nat \<Rightarrow> extract_state
       \<Rightarrow> extract_state" where
  "try_patterns [] line raw following i st = st"
| "try_patterns (p # ps) line raw following i st =
     (case re_match (snd p) line of
        None \<Rightarrow> try_patterns ps line raw following i st
      | Some m \<Rightarrow>
          if 10 < length (strip (group m 1))
          then (let full_question_text = get_full_question_text raw following;
                    counter = first_free (Suc (length (used_ids st)))
                                (\<lambda>c. ''Q'' @ str_of_nat c) (used_ids st) (question_counter st);
                    question_id = ''Q'' @ str_of_nat counter
                in st\<lparr>used_ids := used_ids st @ [question_id],
                      question_counter := Suc counter,
                      questions := questions st
                        @ [pattern_question question_id full_question_text (fst p) i]\<rparr>)
          else try_patterns ps line raw following i st)"

text \<open>One round of the loop over the lines; \<open>i\<close> is the index of the line.\<close>

definition extract_line :: "nat \<Rightarrow> string \<Rightarrow> string list \<Rightarrow> extract_state \<Rightarrow> extract_state" where
  "extract_line i raw following st =
     (let line = strip raw in
      if line = [] then st
      else
        (let main_match = re_match main_pattern line;
             is_heading = (case main_match of
                             None \<Rightarrow> False
                           | Some m \<Rightarrow> 5 < length (strip (group m 2)))
         in if is_heading
            then (case main_match of
                    None \<Rightarrow> st
                  | Some m \<Rightarrow>
                      st\<lparr>main_questions :=
                            AList.update (group m 1)
                              (Heading (heading_record (group m 1) (strip (group m 2)) i))
                              (main_questions st)\<rparr>)
            else
              (let sub_match = re_match sub_pattern line;
                   is_sub = (case sub_match of
                               None \<Rightarrow> False
                             | Some m \<Rightarrow> 10 < length (strip (group m 3)))
               in if is_sub
                  then (case sub_match of
                          None \<Rightarrow> st
                        | Some m \<Rightarrow>
                            add_sub_question (group m 1) (group m 2) (strip (group m 3)) i st)
                  else try_patterns question_patterns line raw following i st)))"

fun extract_lines :: "nat \<Rightarrow> string list \<Rightarrow> extract_state \<Rightarrow> extract_state" where
  "extract_lines i [] st = st"
| "extract_lines i (raw # following) st =
     extract_lines (Suc i) following (extract_line i raw following st)"

text \<open>
  After \<open>_validate_questions\<close> has changed the questions in place, the entries of a
  \<open>sub_questions\<close> list are the validated sub-questions, being the same objects. The
  ids of sub-questions are unique, so an entry is found again by its id.
\<close>

definition same_object :: "pyval list \<Rightarrow> pyval \<Rightarrow> pyval" where
  "same_object validated entry =
     (case find (\<lambda>q. lookup q ''id'' = lookup entry ''id'' \<and> lookup q ''id'' \<noteq> None) validated of
        Some q \<Rightarrow> q
      | None \<Rightarrow> entry)"

definition share_sub_questions :: "pyval list \<Rightarrow> pyval list" where
  "share_sub_questions validated =
     map (\<lambda>q. case lookup q ''sub_questions'' of
                 Some (PList subs) \<Rightarrow>
                   (case q of
                      PDict d \<Rightarrow>
                        PDict (AList.update ''sub_questions''
                                 (PList (map (same_object validated) subs)) d)
                    | _ \<Rightarrow> q)
               | _ \<Rightarrow> q)
         validated"

definition extract_questions_from_text :: "string \<Rightarrow> pyval list" where
  "extract_questions_from_text text =
     (let st = extract_lines 0 (split_on newline text)
                 \<lparr>questions = [], question_counter = 1, used_ids = [], main_questions = []\<rparr>;
          found = (if questions st = [] then extract_potential_questions text else questions st)
      in share_sub_questions (validate_questions found))"

section \<open>ExtractAgent: formatting, chunking and the entry points\<close>

text \<open>
  \<open>try: body except Exception: handler\<close>. The handler sees the exception and may
  raise itself.
\<close>

definition try_except :: "pyexn + 'a \<Rightarrow> (pyexn \<Rightarrow> pyexn + 'a) \<Rightarrow> pyexn + 'a" where
  "try_except body handler = (case body of Inl e \<Rightarrow> handler e | Inr x \<Rightarrow> Inr x)"

subsection \<open>\<open>_format_assessment_text\<close>\<close>

text \<open>
  \<open>chr(n)\<close> raises \<open>ValueError\<close> above \<open>0x10FFFF\<close>. A code point above 255 is
  outside the characters of this model, and \<open>char_of\<close> wraps it.
\<close>

definition py_chr :: "nat \<Rightarrow> pyexn + char" where
  "py_chr n = (if n \<le> 0x10FFFF then Inr (char_of n) else Inl ValueError)"

definition starts_question_number :: rx where
  "starts_question_number = seqs [Bol, Grp 1 (Plus rx_digit), rx_chr CHR ''.'']"

definition starts_part_number :: rx where
  "starts_part_number = seqs [Bol, Plus rx_digit, rx_chr CHR ''.'', Star rx_space, Plus rx_digit]"

definition part_number :: rx where
  "part_number = Grp 1 (seqs [Plus rx_digit, rx_chr CHR ''.'', Star rx_space, Plus rx_digit])"

text \<open>
  The state of the loop is the list \<open>formatted\<close> and \<open>choice_count\<close>. The branch for
  a part number calls \<open>.group(1)\<close> on the result of \<open>re.search\<close>, which is an
  \<open>AttributeError\<close> when there is no match.
\<close>

definition format_line :: "string \<Rightarrow> string list \<times> nat \<Rightarrow> pyexn + string list \<times> nat" where
  "format_line raw acc =
     (let line = strip raw; formatted = fst acc; choice_count = snd acc in
      if line = [] \<or> startswith line ''PC-'' \<or> startswith line ''KE-'' then Inr acc
      else if matches starts_question_number line then
        (case re_match starts_question_number line of
           Some m \<Rightarrow>
             Inr (formatted
                    @ [[newline] @ ''## Question '' @ group m 1,
                       ''**''
                         @ strip (drop (case find_char CHR ''.'' line of
                                          None \<Rightarrow> 0
                                        | Some k \<Rightarrow> Suc k) line)
                         @ ''**'' @ [newline]],
                  0)
         | None \<Rightarrow> Inr (formatted, 0))
      else if matches starts_part_number line then
        (case re_search part_number line of
           None \<Rightarrow> Inl AttributeError
         | Some m \<Rightarrow>
             Inr (formatted
                    @ [''### Part '' @ group m 1 @ '' - ''
                         @ strip (drop (length (group m 1)) line)],
                  0))
      else if line \<noteq> [] \<and> \<not> (startswith line ''Select'' \<or> startswith line ''Choose'')
              \<and> 10 < length line then
        ebind (py_chr (64 + (choice_count + 1))) (\<lambda>letter.
          Inr (formatted @ [''- '' @ [letter] @ '') '' @ line], choice_count + 1))
      else Inr acc)"

definition format_assessment_text :: "string \<Rightarrow> string" where
  "format_assessment_text text =
     (case efold format_line (split_on newline text)
             ([''# Assessment Marking Guide'' @ [newline]], 0) of
        Inl e \<Rightarrow> text
      | Inr acc \<Rightarrow> join [newline] (fst acc))"

subsection \<open>\<open>_split_by_questions\<close> and \<open>_group_into_chunks\<close>\<close>

text \<open>
  \<^verbatim>\<open>re.split(r'(?=\d+\.)', text)\<close>; a piece is kept, stripped, when it is longer
  than ten characters.
\<close>

definition question_number_ahead :: rx where
  "question_number_ahead = Ahead (Seq (Plus rx_digit) (rx_chr CHR ''.''))"

definition split_by_questions :: "string \<Rightarrow> string list" where
  "split_by_questions text =
     filter (\<lambda>question. question \<noteq> [] \<and> 10 < length question)
       (map strip (re_split_ahead question_number_ahead text))"

text \<open>The loop of \<open>_group_into_chunks\<close>, with \<open>chunks\<close> and \<open>current\<close> as its state.\<close>

fun group_loop :: "nat \<Rightarrow> string list \<Rightarrow> string \<Rightarrow> string list \<Rightarrow> string list" where
  "group_loop max_size chunks current [] =
     (if current \<noteq> [] then chunks @ [strip current] else chunks)"
| "group_loop max_size chunks current (q # qs) =
     (if max_size < length (current @ q) \<and> current \<noteq> []
      then group_loop max_size (chunks @ [strip current]) q qs
      else if current \<noteq> []
      then group_loop max_size chunks (current @ [newline] @ q) qs
      else group_loop max_size chunks q qs)"

definition group_into_chunks :: "string list \<Rightarrow> nat \<Rightarrow> string list" where
  "group_into_chunks question_groups max_size = group_loop max_size [] [] question_groups"

subsection \<open>\<open>_process_in_chunks\<close> and \<open>execute_from_text\<close>\<close>

text \<open>
  The extractor that asks the external service, \<open>_extract_questions_with_llm\<close>, is the
  parameter \<open>llm_extract\<close>; it is called only when there is an API key.
\<close>

definition extract_with :: "string \<Rightarrow> (string \<Rightarrow> pyexn + pyval list) \<Rightarrow> string \<Rightarrow> pyexn + pyval list" where
  "extract_with api_key llm_extract text =
     (if api_key \<noteq> [] then llm_extract text else Inr (extract_questions_from_text text))"

definition process_chunk ::
    "string \<Rightarrow> (string \<Rightarrow> pyexn + pyval list) \<Rightarrow> string \<Rightarrow> pyval list \<Rightarrow> pyexn + pyval list" where
  "process_chunk api_key llm_extract chunk all_results =
     try_except
       (ebind (extract_with api_key llm_extract (format_assessment_text chunk)) (\<lambda>result.
          Inr (all_results @ result)))
       (\<lambda>e. try_except (Inr (all_results @ extract_questions_from_text chunk))
                (\<lambda>fallback_error. Inr all_results))"

definition process_in_chunks ::
    "string \<Rightarrow> (string \<Rightarrow> pyexn + pyval list) \<Rightarrow> string \<Rightarrow> nat \<Rightarrow> pyexn + pyval list" where
  "process_in_chunks api_key llm_extract text chunk_size =
     try_except
       (ebind (efold (process_chunk api_key llm_extract)
                 (group_into_chunks (split_by_questions text) chunk_size) []) (\<lambda>all_results.
          Inr (validate_questions all_results)))
       (\<lambda>e. Inr [])"

definition execute_from_text ::
    "string \<Rightarrow> (string \<Rightarrow> pyexn + pyval list) \<Rightarrow> string \<Rightarrow> pyexn + pyval list" where
  "execute_from_text api_key llm_extract text =
     try_except
       (if text = [] \<or> length (strip text) < 50 then Inr []
        else if 5000 < length text then process_in_chunks api_key llm_extract text 3500
        else ebind (extract_with api_key llm_extract (format_assessment_text text)) (\<lambda>found.
               Inr (validate_questions found)))
       (\<lambda>e. try_except (Inr (extract_questions_from_text text)) (\<lambda>fallback_error. Inr []))"

subsection \<open>\<open>ExtractAgent.execute\<close>\<close>

text \<open>
  The files are outside the program: \<open>os.path.exists\<close> and the three readers
  (\<open>_extract_from_docx\<close>, \<open>_extract_from_pdf\<close>, \<open>_extract_from_doc\<close>, which re-raise
  what the libraries raise) are the fields of a file system.
\<close>

record file_system =
  path_exists :: "string \<Rightarrow> bool"
  extract_from_docx :: "string \<Rightarrow> pyexn + string"
  extract_from_pdf :: "string \<Rightarrow> pyexn + string"
  extract_from_doc :: "string \<Rightarrow> pyexn + string"

text \<open>
  \<open>os.path.splitext(p)[1]\<close> on a POSIX path: from the last dot on, when that dot comes
  after the last slash and some character between the two is not a dot.
\<close>

definition splitext_ext :: "string \<Rightarrow> string" where
  "splitext_ext p =
     (case rfind_char CHR ''.'' p of
        None \<Rightarrow> []
      | Some dot_index \<Rightarrow>
          (let filename_index = (case rfind_char CHR ''/'' p of None \<Rightarrow> 0 | Some i \<Rightarrow> Suc i)
           in if filename_index \<le> dot_index
                 \<and> list_ex (\<lambda>c. c \<noteq> CHR ''.'')
                      (take (dot_index - filename_index) (drop filename_index p))
              then drop dot_index p else []))"

definition execute ::
    "file_system \<Rightarrow> string \<Rightarrow> (string \<Rightarrow> pyexn + pyval list) \<Rightarrow> string \<Rightarrow> pyexn + pyval list" where
  "execute fs api_key llm_extract file_path =
     try_except
       (if \<not> path_exists fs file_path then Inl FileNotFoundError
        else
          (let file_extension = py_lower (splitext_ext file_path) in
           ebind (if file_extension = ''.docx'' then extract_from_docx fs file_path
                  else if file_extension = ''.pdf'' then extract_from_pdf fs file_path
                  else if file_extension = ''.doc'' then extract_from_doc fs file_path
                  else Inl ValueError) (\<lambda>text.
             if text = [] \<or> length (strip text) < 50 then Inr []
             else ebind (extract_with api_key llm_extract text) (\<lambda>found.
                    Inr (validate_questions found)))))
       (\<lambda>e. Inr [])"

section \<open>\<open>json.loads\<close>\<close>

text \<open>
  The decoder of Python's \<open>json\<close> module, as far as the agents depend on it: whether
  a text is accepted, and the object it denotes. White space is space, tab, line feed and
  carriage return. Numbers without fraction and exponent are integers, the others
  floats, idealised as rationals. Outside the model: the literals \<open>NaN\<close>, \<open>Infinity\<close>
  and \<open>-Infinity\<close>, which the decoder accepts and which are rejected here; the
  interpreter's limit on the depth of nesting; and characters above 255 written as
  \<open>\u\<close> escapes, which are wrapped.
\<close>

definition json_ws :: "char \<Rightarrow> bool" where
  "json_ws c = (c = CHR '' '' \<or> c = CHR 0x09 \<or> c = CHR 0x0A \<or> c = CHR 0x0D)"

definition skip_ws :: "string \<Rightarrow> string" where
  "skip_ws s = dropWhile json_ws s"

definition digit_value :: "char \<Rightarrow> nat" where
  "digit_value c = code_point c - 48"

definition nat_of_digits :: "string \<Rightarrow> nat" where
  "nat_of_digits ds = foldl (\<lambda>n c. 10 * n + digit_value c) 0 ds"

definition hex_value :: "char \<Rightarrow> nat option" where
  "hex_value c =
     (let n = code_point c in
      if 48 \<le> n \<and> n \<le> 57 then Some (n - 48)
      else if 65 \<le> n \<and> n \<le> 70 then Some (n - 55)
      else if 97 \<le> n \<and> n \<le> 102 then Some (n - 87)
      else None)"

text \<open>The four hexadecimal digits after \<open>\u\<close>.\<close>

definition decode_hex4 :: "string \<Rightarrow> nat option" where
  "decode_hex4 s =
     (case map hex_value (take 4 s) of
        [Some a, Some b, Some c, Some d] \<Rightarrow> Some (((a * 16 + b) * 16 + c) * 16 + d)
      | _ \<Rightarrow> None)"

definition simple_escape :: "char \<Rightarrow> char option" where
  "simple_escape e =
     (if e = CHR 0x22 then Some (CHR 0x22)
      else if e = CHR 0x5C then Some (CHR 0x5C)
      else if e = CHR ''/'' then Some CHR ''/''
      else if e = CHR ''b'' then Some (CHR 0x08)
      else if e = CHR ''f'' then Some (CHR 0x0C)
      else if e = CHR ''n'' then Some (CHR 0x0A)
      else if e = CHR ''r'' then Some (CHR 0x0D)
      else if e = CHR ''t'' then Some (CHR 0x09)
      else None)"

text \<open>
  The text of a string after its opening quote, up to the closing quote: the decoded
  string and what follows it. A control character is not allowed inside (the decoder is
  strict). A high surrogate followed by another \<open>\u\<close> escape that is a low surrogate
  is combined with it.
\<close>

function scan_string :: "string \<Rightarrow> (string \<times> string) option" where
  "scan_string s =
     (case s of
        [] \<Rightarrow> None
      | c # cs \<Rightarrow>
          if c = CHR 0x22 then Some ([], cs)
          else if c = CHR 0x5C then
            (case cs of
               [] \<Rightarrow> None
             | e # es \<Rightarrow>
                 if e = CHR ''u'' then
                   (case decode_hex4 es of
                      None \<Rightarrow> None
                    | Some uni \<Rightarrow>
                        if 0xD800 \<le> uni \<and> uni \<le> 0xDBFF \<and> take 2 (drop 4 es) = [CHR 0x5C, CHR ''u'']
                        then (case decode_hex4 (drop 6 es) of
                                None \<Rightarrow> None
                              | Some uni2 \<Rightarrow>
                                  if 0xDC00 \<le> uni2 \<and> uni2 \<le> 0xDFFF
                                  then map_option
                                         (\<lambda>r. (char_of (0x10000 + (uni - 0xD800) * 1024
                                                          + (uni2 - 0xDC00)) # fst r, snd r))
                                         (scan_string (drop 10 es))
                                  else map_option (\<lambda>r. (char_of uni # fst r, snd r))
                                         (scan_string (drop 4 es)))
                        else map_option (\<lambda>r. (char_of uni # fst r, snd r))
                               (scan_string (drop 4 es)))
                 else (case simple_escape e of
                         None \<Rightarrow> None
                       | Some x \<Rightarrow> map_option (\<lambda>r. (x # fst r, snd r)) (scan_string es)))
          else if code_point c < 32 then None
          else map_option (\<lambda>r. (c # fst r, snd r)) (scan_string cs))"
  by pat_completeness auto
termination
  by (relation "measure length") auto

declare scan_string.simps [simp del]

text \<open>
  A number at the start of the text, by the decoder's pattern
  \<^verbatim>\<open>(-?(?:0|[1-9]\d*))(\.\d+)?([eE][-+]?\d+)?\<close>.
\<close>

definition scan_number :: "string \<Rightarrow> (pyval \<times> string) option" where
  "scan_number s =
     (let negative = (take 1 s = ''-'');
          s1 = (if negative then drop 1 s else s);
          int_digits = (if take 1 s1 = ''0'' then ''0'' else takeWhile is_decimal s1);
          s2 = drop (length int_digits) s1;
          frac_digits = (if take 1 s2 = ''.'' then takeWhile is_decimal (drop 1 s2) else []);
          s3 = (if frac_digits = [] then s2 else drop (Suc (length frac_digits)) s2);
          has_e = (take 1 s3 = ''e'' \<or> take 1 s3 = ''E'');
          s4 = (if has_e then drop 1 s3 else s3);
          exp_negative = (has_e \<and> take 1 s4 = ''-'');
          s5 = (if has_e \<and> (take 1 s4 = ''-'' \<or> take 1 s4 = ''+'') then drop 1 s4 else s4);
          exp_digits = (if has_e then takeWhile is_decimal s5 else []);
          s6 = (if exp_digits = [] then s3 else drop (length exp_digits) s5);
          sign = (if negative then - 1 else 1)
      in if int_digits = [] then None
         else if frac_digits = [] \<and> exp_digits = []
         then Some (PInt (sign * int (nat_of_digits int_digits)), s6)
         else Some (PFloat (of_int sign
                            * (of_nat (nat_of_digits int_digits)
                               + of_nat (nat_of_digits frac_digits) / 10 ^ length frac_digits)
                            * (if exp_negative then 1 / 10 ^ nat_of_digits exp_digits
                               else 10 ^ nat_of_digits exp_digits)),
                    s6))"

text \<open>
  Values, the members of an object and the items of an array. The first argument
  bounds the chain of calls; every call in a chain reads at least one character, so
  the length of the text plus one is enough. \<open>scan_members\<close> starts after the opening
  quote of a key, \<open>scan_items\<close> at an item. A key given twice keeps its first place and
  its last value, as \<open>dict\<close> does.
\<close>

fun scan_value :: "nat \<Rightarrow> string \<Rightarrow> (pyval \<times> string) option"
  and scan_members :: "nat \<Rightarrow> (string \<times> pyval) list \<Rightarrow> string \<Rightarrow> (pyval \<times> string) option"
  and scan_items :: "nat \<Rightarrow> pyval list \<Rightarrow> string \<Rightarrow> (pyval \<times> string) option" where
  "scan_value 0 s = None"
| "scan_value (Suc n) s =
     (case s of
        [] \<Rightarrow> None
      | c # cs \<Rightarrow>
          if c = CHR 0x22 then map_option (\<lambda>r. (PStr (fst r), snd r)) (scan_string cs)
          else if c = CHR ''{'' then
            (case skip_ws cs of
               [] \<Rightarrow> None
             | d # ds \<Rightarrow>
                 if d = CHR ''}'' then Some (PDict [], ds)
                 else if d = CHR 0x22 then scan_members n [] ds
                 else None)
          else if c = CHR ''['' then
            (case skip_ws cs of
               [] \<Rightarrow> None
             | d # ds \<Rightarrow>
                 if d = CHR '']'' then Some (PList [], ds)
                 else scan_items n [] (d # ds))
          else if take 4 s = ''null'' then Some (PNone, drop 4 s)
          else if take 4 s = ''true'' then Some (PBool True, drop 4 s)
          else if take 5 s = ''false'' then Some (PBool False, drop 5 s)
          else scan_number s)"
| "scan_members 0 acc s = None"
| "scan_members (Suc n) acc s =
     (case scan_string s of
        None \<Rightarrow> None
      | Some (key, s1) \<Rightarrow>
          (case skip_ws s1 of
             [] \<Rightarrow> None
           | c # s2 \<Rightarrow>
               if c \<noteq> CHR '':'' then None
               else (case scan_value n (skip_ws s2) of
                       None \<Rightarrow> None
                     | Some (v, s3) \<Rightarrow>
                         (case skip_ws s3 of
                            [] \<Rightarrow> None
                          | d # s4 \<Rightarrow>
                              if d = CHR ''}'' then Some (PDict (AList.update key v acc), s4)
                              else if d \<noteq> CHR '','' then None
                              else (case skip_ws s4 of
                                      [] \<Rightarrow> None
                                    | q # s5 \<Rightarrow>
                                        if q = CHR 0x22
                                        then scan_members n (AList.update key v acc) s5
                                        else None)))))"
| "scan_items 0 acc s = None"
| "scan_items (Suc n) acc s =
     (case scan_value n s of
        None \<Rightarrow> None
      | Some (v, s1) \<Rightarrow>
          (case skip_ws s1 of
             [] \<Rightarrow> None
           | d # s2 \<Rightarrow>
               if d = CHR '']'' then Some (PList (acc @ [v]), s2)
               else if d \<noteq> CHR '','' then None
               else scan_items n (acc @ [v]) (skip_ws s2)))"

text \<open>\<open>json.loads(s)\<close>; \<open>None\<close> stands for the exception it raises.\<close>

definition json_loads :: "string \<Rightarrow> pyval option" where
  "json_loads s =
     (case scan_value (Suc (length s)) (skip_ws s) of
        None \<Rightarrow> None
      | Some (v, s1) \<Rightarrow> if skip_ws s1 = [] then Some v else None)"

section \<open>MappingAgent: repairing the reply text (\<open>_clean_json_response\<close>)\<close>

text \<open>
  The patterns of the repair:
  \<^verbatim>\<open>```json\s*   ```\s*   ,(\s*[}\]])   (?<!\\)"(?=.*".*:)   }\s*{   ]\s*\[
  [\x00-\x1f\x7f-\x9f]   \{[^{}]*(?:\{[^{}]*\}[^{}]*)*\}\<close>
\<close>

definition double_quote :: char where
  "double_quote = CHR 0x22"

definition fence_json :: rx where
  "fence_json = Seq (rx_str ''```json'') (Star rx_space)"

definition fence :: rx where
  "fence = Seq (rx_str ''```'') (Star rx_space)"

definition trailing_comma :: rx where
  "trailing_comma =
     Seq (rx_chr CHR '','')
         (Grp 1 (Seq (Star rx_space) (Cls (\<lambda>c. c = CHR ''}'' \<or> c = CHR '']''))))"

definition unescaped_quote :: rx where
  "unescaped_quote =
     seqs [NotBehind (\<lambda>c. c = CHR 0x5C), rx_chr double_quote,
           Ahead (seqs [Star rx_dot, rx_chr double_quote, Star rx_dot, rx_chr CHR '':''])]"

definition adjacent_objects :: rx where
  "adjacent_objects = seqs [rx_chr CHR ''}'', Star rx_space, rx_chr CHR ''{'']"

definition adjacent_arrays :: rx where
  "adjacent_arrays = seqs [rx_chr CHR '']'', Star rx_space, rx_chr CHR ''['']"

definition control_character :: rx where
  "control_character =
     Cls (\<lambda>c. code_point c \<le> 0x1F \<or> (0x7F \<le> code_point c \<and> code_point c \<le> 0x9F))"

definition not_brace :: rx where
  "not_brace = Cls (\<lambda>c. c \<noteq> CHR ''{'' \<and> c \<noteq> CHR ''}'')"

definition json_pattern :: rx where
  "json_pattern =
     seqs [rx_chr CHR ''{'', Star not_brace,
           Star (seqs [rx_chr CHR ''{'', Star not_brace, rx_chr CHR ''}'', Star not_brace]),
           rx_chr CHR ''}'']"

text \<open>\<open>_fix_common_json_issues\<close>: the five substitutions, in the order of the source.\<close>

definition fix_common_json_issues :: "string \<Rightarrow> string" where
  "fix_common_json_issues json_str =
     (let s1 = re_sub trailing_comma (\<lambda>m. group m 1) json_str;
          s2 = re_sub unescaped_quote (\<lambda>m. [CHR 0x5C, double_quote]) s1;
          s3 = re_sub adjacent_objects (\<lambda>m. ''},{'') s2;
          s4 = re_sub adjacent_arrays (\<lambda>m. ''],['') s3
      in re_sub control_character (\<lambda>m. []) s4)"

text \<open>
  \<open>json_start = s.find('{')\<close> and \<open>json_end = s.rfind('}') + 1\<close>, when
  \<open>json_start != -1 and json_end > json_start\<close>.
\<close>

definition brace_bounds :: "string \<Rightarrow> (nat \<times> nat) option" where
  "brace_bounds s =
     (case find_char CHR ''{'' s of
        None \<Rightarrow> None
      | Some json_start \<Rightarrow>
          (case rfind_char CHR ''}'' s of
             None \<Rightarrow> None
           | Some last_brace \<Rightarrow>
               if json_start < Suc last_brace then Some (json_start, Suc last_brace) else None))"

definition slice :: "string \<Rightarrow> nat \<Rightarrow> nat \<Rightarrow> string" where
  "slice s i j = take (j - i) (drop i s)"

definition loadable :: "string \<Rightarrow> string option" where
  "loadable candidate = (if json_loads candidate \<noteq> None then Some candidate else None)"

text \<open>
  The four methods. The third one is guarded by the bounds that the second one found in
  \<open>cleaned\<close>, and cuts \<open>response\<close> with them, as the source does.
\<close>

definition clean_json_response :: "string \<Rightarrow> string option" where
  "clean_json_response response =
     (let method1 = (case brace_bounds response of
                       None \<Rightarrow> None
                     | Some b \<Rightarrow> loadable (slice response (fst b) (snd b)))
      in case method1 of
           Some candidate \<Rightarrow> Some candidate
         | None \<Rightarrow>
             (let cleaned = re_sub fence (\<lambda>m. []) (re_sub fence_json (\<lambda>m. []) response);
                  bounds = brace_bounds cleaned;
                  method2 = (case bounds of
                               None \<Rightarrow> None
                             | Some b \<Rightarrow> loadable (slice cleaned (fst b) (snd b)))
              in case method2 of
                   Some candidate \<Rightarrow> Some candidate
                 | None \<Rightarrow>
                     (let method3 =
                            (case bounds of
                               None \<Rightarrow> None
                             | Some b \<Rightarrow>
                                 loadable (fix_common_json_issues
                                             (slice response (fst b) (snd b))))
                      in case method3 of
                           Some candidate \<Rightarrow> Some candidate
                         | None \<Rightarrow>
                             find (\<lambda>candidate. json_loads candidate \<noteq> None)
                               (re_findall json_pattern response))))"

section \<open>MappingAgent: mapping one question and the batch\<close>









subsection \<open>\<open>_calculate_average_confidence\<close>\<close>




subsection \<open>\<open>_analyze_mapping_coverage\<close>: the coverage statistics\<close>






record mapped_sets =
  mapped_elements :: "pyval list"
  mapped_criteria :: "pyval list"
  mapped_performance_evidence :: "pyval list"
  mapped_knowledge_evidence :: "pyval list"


subsection \<open>\<open>_identify_unmapped_components\<close>\<close>








text \<open>
  The four kinds of component, as the function above treats them: the key of the unit
  data that holds the components, the key of the coverage record in the result, the
  category of the mapping analysis, the id key of the items of the category, and the set
  that collects the ids.
\<close>

definition coverage_kinds ::
    "(string \<times> string \<times> string \<times> string \<times> (mapped_sets \<Rightarrow> pyval list)) list" where
  "coverage_kinds =
     [(''elements'', ''elements_coverage'', ''mapped_elements'', ''element_id'',
       mapped_elements),
      (''performance_criteria'', ''performance_criteria_coverage'',
       ''mapped_performance_criteria'', ''criterion_id'', mapped_criteria),
      (''performance_evidence'', ''performance_evidence_coverage'',
       ''mapped_performance_evidence'', ''evidence_id'', mapped_performance_evidence),
      (''knowledge_evidence'', ''knowledge_evidence_coverage'',
       ''mapped_knowledge_evidence'', ''evidence_id'', mapped_knowledge_evidence)]"

subsection \<open>\<open>MappingAgent.execute\<close>\<close>




section \<open>Properties of the component-code normalisation\<close>

subsection \<open>Strings\<close>

lemma startswith_length: "startswith s p \<Longrightarrow> length p \<le> length s"
  unfolding startswith_def by (metis length_take min.cobounded1)

lemma startswith_append_same [simp]: "startswith (p @ s) (p @ q) = startswith s q"
  unfolding startswith_def by simp

lemma startswith_self_append [simp]: "startswith (p @ s) p"
  unfolding startswith_def by simp



lemma strip_nonempty:
  "s \<noteq> [] \<Longrightarrow> strip_doubled_prefix p s \<noteq> []"
proof (induction p s rule: strip_doubled_prefix.induct)
  case (1 p s)
  show ?case
  proof (cases "p \<noteq> [] \<and> startswith s (p @ p)")
    case True
    then have "length (p @ p) \<le> length s" by (auto dest: startswith_length)
    with True have "drop (length p) s \<noteq> []" by (cases p) auto
    with 1 True show ?thesis by (subst strip_doubled_prefix.simps) simp
  next
    case False
    with 1 show ?thesis by (subst strip_doubled_prefix.simps) auto
  qed
qed


lemma isdigit_1 [simp]: "isdigit CHR ''1''"
  by (simp add: isdigit_def is_decimal_def code_point_def)




lemma normalize_id_nonempty:
  assumes "p \<noteq> []"
  shows "normalize_id p s \<noteq> []"
  using assms by (auto simp: normalize_id_def Let_def)

lemma ebind_Inr_iff: "ebind m f = Inr y \<longleftrightarrow> (\<exists>x. m = Inr x \<and> f x = Inr y)"
  by (cases m) (auto simp: ebind_def)

lemma ebind_Inr [simp]: "ebind (Inr x) f = f x"
  by (simp add: ebind_def)

lemma ebind_Inl [simp]: "ebind (Inl e) f = Inl e"
  by (simp add: ebind_def)

lemma in_keys_iff: "k \<in> fst ` set d \<longleftrightarrow> map_of d k \<noteq> None"
  by (simp add: map_of_eq_None_iff)















subsection \<open>Claim C4\<close>



section \<open>Properties of the reply validation\<close>

subsection \<open>Dictionary operations\<close>

lemma py_get_Inr:
  "py_get x k dflt = Inr v \<longleftrightarrow>
     is_dict x \<and> v = (case lookup x k of None \<Rightarrow> dflt | Some w \<Rightarrow> w)"
  by (cases x) auto

lemma py_getitem_Inr: "py_getitem x k = Inr v \<longleftrightarrow> lookup x k = Some v"
  by (cases x) (auto split: option.splits)

lemma py_contains_dict: "is_dict x \<Longrightarrow> py_contains k x = Inr (lookup x k \<noteq> None)"
  by (cases x) (auto simp: in_keys_iff)

lemma py_setitem_Inr:
  "py_setitem x k v = Inr x' \<Longrightarrow>
     is_dict x \<and> is_dict x' \<and> (\<forall>k'. lookup x' k' = (if k' = k then Some v else lookup x k'))"
  by (cases x) (auto simp: update_conv')


lemma py_setdefault_Inr:
  "py_setdefault x k v = Inr r \<Longrightarrow>
     is_dict x \<and> is_dict (fst r)
     \<and> (\<forall>k'. lookup (fst r) k' = (if k' = k \<and> lookup x k = None then Some v else lookup x k'))
     \<and> lookup (fst r) k = Some (snd r)"
  by (cases x) (auto simp: update_conv' split: option.splits)

lemma py_setdefault_keeps:
  "py_setdefault x k v = Inr r \<Longrightarrow> lookup x k' = Some w \<Longrightarrow> lookup (fst r) k' = Some w"
  by (cases x) (auto simp: update_conv' split: option.splits)

lemma py_setdefault_snd:
  "py_setdefault x k v = Inr r \<Longrightarrow> lookup x k = Some w \<Longrightarrow> snd r = w"
  by (cases x) (auto split: option.splits)

lemma py_setitem_other:
  "py_setitem x k v = Inr x' \<Longrightarrow> k' \<noteq> k \<Longrightarrow> lookup x' k' = lookup x k'"
  by (cases x) (auto simp: update_conv')

lemma py_setitem_same:
  "py_setitem x k v = Inr x' \<Longrightarrow> lookup x' k = Some v"
  by (cases x) (auto simp: update_conv')

lemma setdefault_all_Inr:
  "setdefault_all kvs x = Inr x' \<Longrightarrow> kvs \<noteq> [] \<or> is_dict x \<Longrightarrow>
     is_dict x \<and> is_dict x'
     \<and> (\<forall>k. lookup x' k = (case lookup x k of None \<Rightarrow> map_of kvs k | Some w \<Rightarrow> Some w))"
proof (induction kvs arbitrary: x)
  case Nil
  then show ?case by (auto simp: setdefault_all_def split: option.splits)
next
  case (Cons kv kvs)
  from Cons.prems(1) obtain r where r: "py_setdefault x (fst kv) (snd kv) = Inr r"
    and rest: "setdefault_all kvs (fst r) = Inr x'"
    by (auto simp: setdefault_all_def ebind_Inr_iff split: sum.splits)
  from py_setdefault_Inr [OF r] have d: "is_dict x" "is_dict (fst r)"
    and l: "\<forall>k'. lookup (fst r) k' =
              (if k' = fst kv \<and> lookup x (fst kv) = None then Some (snd kv) else lookup x k')"
    by auto
  from Cons.IH [OF rest] d have d': "is_dict x'"
    and l': "\<forall>k. lookup x' k = (case lookup (fst r) k of None \<Rightarrow> map_of kvs k | Some w \<Rightarrow> Some w)"
    by auto
  show ?case using d d' l l' by (cases kv) (auto split: option.splits)
qed

lemma emap_length: "emap f xs = Inr ys \<Longrightarrow> length ys = length xs"
  by (induction xs arbitrary: ys) (auto split: sum.splits)

lemma efilter_Nil_iff: "efilter f [] = Inr ys \<longleftrightarrow> ys = []"
  by auto

text \<open>
  What a cleaning or filtering step may do to the value under a key: leave it as it is,
  or replace a list by a list.
\<close>

definition keeps_shape :: "pyval option \<Rightarrow> pyval option \<Rightarrow> bool" where
  "keeps_shape a b =
     (a = b \<or> (\<exists>xs ys. a = Some (PList xs) \<and> b = Some (PList ys) \<and> (xs = [] \<longrightarrow> ys = [])))"

lemma keeps_shape_refl [simp]: "keeps_shape a a"
  by (simp add: keeps_shape_def)

lemma keeps_shape_trans: "keeps_shape a b \<Longrightarrow> keeps_shape b c \<Longrightarrow> keeps_shape a c"
  by (auto simp: keeps_shape_def)

lemma keeps_shape_None [simp]: "keeps_shape None b \<longleftrightarrow> b = None"
  by (auto simp: keeps_shape_def)

lemma keeps_shape_Some: "keeps_shape (Some v) b \<Longrightarrow> b \<noteq> None"
  by (auto simp: keeps_shape_def)

lemma keeps_shape_empty: "keeps_shape (Some (PList [])) b \<Longrightarrow> b = Some (PList [])"
  by (auto simp: keeps_shape_def)

lemma keeps_shape_list: "keeps_shape (Some (PList xs)) b \<Longrightarrow> \<exists>ys. b = Some (PList ys)"
  by (auto simp: keeps_shape_def)

lemma clean_category_lookup:
  assumes "clean_category key f ma = Inr ma'"
  shows "is_dict ma \<and> is_dict ma' \<and> (\<forall>k. keeps_shape (lookup ma k) (lookup ma' k))"
proof -
  from assms obtain d where d: "ma = PDict d"
    by (cases ma) (auto simp: clean_category_def)
  show ?thesis
  proof (cases "map_of d key")
    case None
    with assms d show ?thesis by (auto simp: clean_category_def in_keys_iff)
  next
    case (Some v)
    show ?thesis
    proof (cases "\<exists>xs. v = PList xs")
      case True
      then obtain xs where xs: "v = PList xs" by blast
      with assms d Some obtain ys where ys: "emap f xs = Inr ys"
        and m: "ma' = PDict (AList.update key (PList ys) d)"
        by (auto simp: clean_category_def in_keys_iff ebind_Inr_iff)
      from ys have "xs = [] \<longrightarrow> ys = []" by auto
      with m d Some xs show ?thesis by (auto simp: update_conv' keeps_shape_def)
    next
      case False
      with assms d Some show ?thesis
        by (cases v) (auto simp: clean_category_def in_keys_iff ebind_Inr_iff)
    qed
  qed
qed

lemma clean_mapping_ids_lookup:
  assumes "clean_mapping_ids ma = Inr ma'"
  shows "is_dict ma \<and> is_dict ma' \<and> keeps_shape (lookup ma k) (lookup ma' k)"
proof -
  from assms obtain ma1 ma2 ma3 where
    c1: "clean_category ''mapped_elements''
           (clean_id_field ''E'' ''element_id'' ''element_code'') ma = Inr ma1" and
    c2: "clean_category ''mapped_performance_criteria''
           (clean_id_field ''PC'' ''criterion_id'' ''criterion_code'') ma1 = Inr ma2" and
    c3: "clean_category ''mapped_performance_evidence''
           (clean_id_field ''PE'' ''evidence_id'' ''evidence_code'') ma2 = Inr ma3" and
    c4: "clean_category ''mapped_knowledge_evidence''
           (\<lambda>ke. ebind (clean_id_field ''KE'' ''evidence_id'' ''evidence_code'' ke)
                (clean_id_field ''KE'' ''knowledge_id'' ''knowledge_code'')) ma3 = Inr ma'"
    unfolding clean_mapping_ids_def by (auto simp: ebind_Inr_iff)
  note l1 = clean_category_lookup [OF c1] and l2 = clean_category_lookup [OF c2]
    and l3 = clean_category_lookup [OF c3] and l4 = clean_category_lookup [OF c4]
  have "keeps_shape (lookup ma k) (lookup ma2 k)"
    using l1 l2 by (blast intro: keeps_shape_trans)
  then have "keeps_shape (lookup ma k) (lookup ma3 k)"
    using l3 by (blast intro: keeps_shape_trans)
  then have "keeps_shape (lookup ma k) (lookup ma' k)"
    using l4 by (blast intro: keeps_shape_trans)
  with l1 l4 show ?thesis by blast
qed

lemma filter_category_lookup:
  assumes "filter_category key ik dk ma = Inr ma'" and "is_dict ma"
  shows "is_dict ma' \<and> (\<forall>k. k \<noteq> key \<longrightarrow> lookup ma' k = lookup ma k)
         \<and> (lookup ma key = Some (PList []) \<longrightarrow> lookup ma' key = Some (PList []))
         \<and> (lookup ma key \<noteq> None \<longrightarrow> (\<exists>zs. lookup ma' key = Some (PList zs)))"
proof (cases "lookup ma key")
  case None
  with assms show ?thesis
    by (auto simp: filter_category_def py_contains_dict)
next
  case (Some v)
  with assms obtain items kept where it: "py_iter v = Inr items"
    and k: "efilter (has_id_and_description ik dk) items = Inr kept"
    and s: "py_setitem ma key (PList kept) = Inr ma'"
    by (auto simp: filter_category_def py_contains_dict ebind_Inr_iff py_getitem_Inr)
  from py_setitem_Inr [OF s] have d: "is_dict ma'"
    and l: "\<forall>k'. lookup ma' k' = (if k' = key then Some (PList kept) else lookup ma k')"
    by auto
  have "v = PList [] \<longrightarrow> kept = []"
    using it k by auto
  with d l Some show ?thesis by auto
qed

text \<open>After the four filters every category that is present holds a list.\<close>

lemma filter_empty_mappings_lookup:
  assumes f: "filter_empty_mappings md = Inr md'" and ma: "lookup md ''mapping_analysis'' = Some ma"
    and dict: "is_dict ma"
  shows "\<exists>ma'. lookup md' ''mapping_analysis'' = Some ma'
           \<and> (\<forall>k \<in> set mapping_categories.
                 (lookup ma k = Some (PList []) \<longrightarrow> lookup ma' k = Some (PList []))
                 \<and> (lookup ma k \<noteq> None \<longrightarrow> (\<exists>zs. lookup ma' k = Some (PList zs))))"
proof -
  from ma have md: "is_dict md" by (cases md) auto
  from f ma md obtain ma1 ma2 ma3 ma4 where
    f1: "filter_category ''mapped_elements'' ''element_id'' ''element_description'' ma = Inr ma1" and
    f2: "filter_category ''mapped_performance_criteria'' ''criterion_id''
           ''criterion_description'' ma1 = Inr ma2" and
    f3: "filter_category ''mapped_performance_evidence'' ''evidence_id''
           ''evidence_description'' ma2 = Inr ma3" and
    f4: "filter_category ''mapped_knowledge_evidence'' ''evidence_id''
           ''evidence_description'' ma3 = Inr ma4" and
    s: "py_setitem md ''mapping_analysis'' ma4 = Inr md'"
    by (auto simp: filter_empty_mappings_def py_contains_dict ebind_Inr_iff py_getitem_Inr)
  note l1 = filter_category_lookup [OF f1 dict]
  from l1 have d1: "is_dict ma1" by simp
  note l2 = filter_category_lookup [OF f2 d1]
  from l2 have d2: "is_dict ma2" by simp
  note l3 = filter_category_lookup [OF f3 d2]
  from l3 have d3: "is_dict ma3" by simp
  note l4 = filter_category_lookup [OF f4 d3]
  from py_setitem_Inr [OF s] have r: "lookup md' ''mapping_analysis'' = Some ma4"
    by simp
  have e: "lookup ma ''mapped_elements'' = Some (PList []) \<longrightarrow>
             lookup ma4 ''mapped_elements'' = Some (PList [])"
          "lookup ma ''mapped_elements'' \<noteq> None \<longrightarrow>
             (\<exists>zs. lookup ma4 ''mapped_elements'' = Some (PList zs))"
    using l1 l2 l3 l4 by simp_all
  have c: "lookup ma ''mapped_performance_criteria'' = Some (PList []) \<longrightarrow>
             lookup ma4 ''mapped_performance_criteria'' = Some (PList [])"
          "lookup ma ''mapped_performance_criteria'' \<noteq> None \<longrightarrow>
             (\<exists>zs. lookup ma4 ''mapped_performance_criteria'' = Some (PList zs))"
    using l1 l2 l3 l4 by simp_all
  have pe: "lookup ma ''mapped_performance_evidence'' = Some (PList []) \<longrightarrow>
             lookup ma4 ''mapped_performance_evidence'' = Some (PList [])"
          "lookup ma ''mapped_performance_evidence'' \<noteq> None \<longrightarrow>
             (\<exists>zs. lookup ma4 ''mapped_performance_evidence'' = Some (PList zs))"
    using l1 l2 l3 l4 by simp_all
  have ke: "lookup ma ''mapped_knowledge_evidence'' = Some (PList []) \<longrightarrow>
             lookup ma4 ''mapped_knowledge_evidence'' = Some (PList [])"
          "lookup ma ''mapped_knowledge_evidence'' \<noteq> None \<longrightarrow>
             (\<exists>zs. lookup ma4 ''mapped_knowledge_evidence'' = Some (PList zs))"
    using l1 l2 l3 l4 by simp_all
  show ?thesis
    using r e c pe ke by (simp add: mapping_categories_def)
qed

lemma analysis_field_ok_True:
  "analysis_field_ok ma field = Inr True \<Longrightarrow> \<exists>xs. lookup ma field = Some (PList xs)"
proof -
  assume a: "analysis_field_ok ma field = Inr True"
  then obtain v where "lookup ma field = Some v" and "is_list v"
    by (auto simp: analysis_field_ok_def ebind_Inr_iff py_getitem_Inr split: if_splits)
  then show ?thesis by (cases v) auto
qed

lemma validate_basic_mapping_structure_True:
  assumes "validate_basic_mapping_structure md = Inr True"
  shows "is_dict md \<and> lookup md ''question_id'' \<noteq> None
         \<and> (\<exists>ma. lookup md ''mapping_analysis'' = Some ma
                \<and> (\<exists>xs. lookup ma ''mapped_elements'' = Some (PList xs))
                \<and> (\<exists>ys. lookup ma ''mapped_performance_criteria'' = Some (PList ys)))"
proof -
  from assms obtain ma where
    q: "py_contains ''question_id'' md = Inr True" and
    a: "py_contains ''mapping_analysis'' md = Inr True" and
    g: "py_get md ''mapping_analysis'' (PDict []) = Inr ma" and
    e: "analysis_field_ok ma ''mapped_elements'' = Inr True" and
    c: "analysis_field_ok ma ''mapped_performance_criteria'' = Inr True"
    by (auto simp: validate_basic_mapping_structure_def ebind_Inr_iff split: if_splits)
  from g have d: "is_dict md" by (simp add: py_get_Inr)
  from q a d have l: "lookup md ''question_id'' \<noteq> None" "lookup md ''mapping_analysis'' \<noteq> None"
    by (simp_all add: py_contains_dict)
  with g have "lookup md ''mapping_analysis'' = Some ma"
    by (auto simp: py_get_Inr)
  with d l analysis_field_ok_True [OF e] analysis_field_ok_True [OF c] show ?thesis
    by simp
qed

lemma lookup_Some_list_is_dict: "lookup x k = Some v \<Longrightarrow> is_dict x"
  by (cases x) auto

lemma ensure_complete_mapping_structure_lists:
  assumes e: "ensure_complete_mapping_structure md q uoc = Inr md'"
    and ma: "lookup md ''mapping_analysis'' = Some ma" and dict: "is_dict ma"
  shows "\<exists>ma'. lookup md' ''mapping_analysis'' = Some ma'
           \<and> (\<forall>k \<in> set mapping_categories.
                 (\<exists>zs. lookup ma' k = Some (PList zs))
                 \<and> (lookup ma k = None \<longrightarrow> lookup ma' k = Some (PList [])))"
proof -
  let ?kvs = "[(''mapped_elements'', PList []), (''mapped_performance_criteria'', PList []),
               (''mapped_performance_evidence'', PList []), (''mapped_knowledge_evidence'', PList [])]"
  from e obtain qtext r1 choices r2 md3 r4 ma5 ma6 n md7 r8 has_ca md9 ma10 stats md11 where
    s0: "py_get q ''text'' (PStr []) = Inr qtext" and
    s1: "py_setdefault md ''question_text'' qtext = Inr r1" and
    s1': "py_get q ''choices'' (PList []) = Inr choices" and
    s2: "py_setdefault (fst r1) ''question_choices'' choices = Inr r2" and
    s3: "setdefault_all
           [(''assessment_type'', PStr ''Mixed''), (''bloom_taxonomy'', default_bloom_taxonomy),
            (''asqa_quality_assessment'', default_asqa_quality_assessment)] (fst r2) = Inr md3" and
    s4: "py_setdefault md3 ''mapping_analysis'' (PDict []) = Inr r4" and
    s5: "setdefault_all ?kvs (snd r4) = Inr ma5" and
    s6: "clean_mapping_ids ma5 = Inr ma6" and
    s6': "log_id_validation_issues ma6 = Inr n" and
    s7: "py_setitem (fst r4) ''mapping_analysis'' ma6 = Inr md7" and
    s8: "py_setdefault md7 ''overall_assessment'' default_overall_assessment = Inr r8" and
    s8': "py_contains ''comprehensive_analysis'' (fst r8) = Inr has_ca" and
    s9: "(if has_ca then Inr (fst r8)
          else py_setitem (fst r8) ''comprehensive_analysis'' default_comprehensive_analysis) = Inr md9" and
    s10: "py_get md9 ''mapping_analysis'' (PDict []) = Inr ma10" and
    s10': "calculate_mapping_statistics ma10 = Inr stats" and
    s11: "py_setitem md9 ''mapping_statistics'' stats = Inr md11" and
    s12: "filter_empty_mappings md11 = Inr md'"
    unfolding ensure_complete_mapping_structure_def ebind_Inr_iff
    by (elim exE conjE) (rule that)
  have l1: "lookup (fst r1) ''mapping_analysis'' = Some ma"
    using s1 ma by (rule py_setdefault_keeps)
  have l2: "lookup (fst r2) ''mapping_analysis'' = Some ma"
    using s2 l1 by (rule py_setdefault_keeps)
  have l3: "lookup md3 ''mapping_analysis'' = Some ma"
    using setdefault_all_Inr [OF s3] l2 by simp
  have l4': "lookup (fst r4) ''mapping_analysis'' = Some ma"
    using s4 l3 by (rule py_setdefault_keeps)
  have l4: "snd r4 = ma"
    using s4 l3 by (rule py_setdefault_snd)
  have l5: "\<forall>k. lookup ma5 k = (case lookup ma k of None \<Rightarrow> map_of ?kvs k | Some w \<Rightarrow> Some w)"
    using setdefault_all_Inr [OF s5] l4 by simp
  have d6: "is_dict ma6" and l6: "\<And>k. keeps_shape (lookup ma5 k) (lookup ma6 k)"
    using clean_mapping_ids_lookup [OF s6] by simp_all
  have l7: "lookup md7 ''mapping_analysis'' = Some ma6"
    using s7 by (rule py_setitem_same)
  have l8: "lookup (fst r8) ''mapping_analysis'' = Some ma6"
    using s8 l7 by (rule py_setdefault_keeps)
  have l9: "lookup md9 ''mapping_analysis'' = Some ma6"
  proof (cases has_ca)
    case True
    with s9 l8 show ?thesis by simp
  next
    case False
    with s9 have "py_setitem (fst r8) ''comprehensive_analysis'' default_comprehensive_analysis = Inr md9"
      by simp
    from py_setitem_other [OF this, of "''mapping_analysis''"] l8 show ?thesis by simp
  qed
  have l11: "lookup md11 ''mapping_analysis'' = Some ma6"
    using py_setitem_other [OF s11, of "''mapping_analysis''"] l9 by simp
  from filter_empty_mappings_lookup [OF s12 l11 d6] obtain ma' where
    r: "lookup md' ''mapping_analysis'' = Some ma'" and
    f: "\<forall>k \<in> set mapping_categories.
          (lookup ma6 k = Some (PList []) \<longrightarrow> lookup ma' k = Some (PList []))
          \<and> (lookup ma6 k \<noteq> None \<longrightarrow> (\<exists>zs. lookup ma' k = Some (PList zs)))"
    by blast
  have "(\<exists>zs. lookup ma' k = Some (PList zs))
        \<and> (lookup ma k = None \<longrightarrow> lookup ma' k = Some (PList []))"
    if k: "k \<in> set mapping_categories" for k
  proof -
    have p5: "lookup ma5 k \<noteq> None"
      using l5 k by (auto simp: mapping_categories_def split: option.splits)
    then have p6: "lookup ma6 k \<noteq> None"
      using l6 [of k] by (auto dest: keeps_shape_Some)
    have "lookup ma k = None \<longrightarrow> lookup ma5 k = Some (PList [])"
      using l5 k by (auto simp: mapping_categories_def)
    then have "lookup ma k = None \<longrightarrow> lookup ma6 k = Some (PList [])"
      using l6 [of k] by (auto dest: keeps_shape_empty)
    with p6 f k show ?thesis by blast
  qed
  with r show ?thesis by blast
qed

subsection \<open>Claim C7\<close>

lemma accept_mapping_data_Some:
  assumes "accept_mapping_data md q uoc now = Some m"
  shows "validate_basic_mapping_structure md = Inr True
         \<and> (\<exists>md1 md2. ensure_complete_mapping_structure md q uoc = Inr md1
               \<and> py_setitem md1 ''audit_trail'' (audit_trail now) = Inr md2
               \<and> py_setitem md2 ''mapping_source'' (PStr ''ai'') = Inr m)"
proof (cases "validate_basic_mapping_structure md")
  case (Inl e)
  with assms show ?thesis by (simp add: accept_mapping_data_def)
next
  case (Inr ok)
  show ?thesis
  proof (cases ok)
    case False
    with Inr assms show ?thesis by (simp add: accept_mapping_data_def)
  next
    case True
    with Inr assms show ?thesis
      by (auto simp: accept_mapping_data_def ebind_def split: sum.splits)
  qed
qed

text \<open>
  C7, as amended. An accepted reply is a dictionary with a \<open>question_id\<close> whose
  \<open>mapping_analysis\<close> holds \<open>mapped_elements\<close> and \<open>mapped_performance_criteria\<close>
  as lists: a reply missing one of these two gives no result. The two evidence lists are
  not required: the accepted mapping holds all four categories as lists, and a category
  that the reply did not have is the empty list.
\<close>

theorem accept_mapping_data_requires:
  assumes "accept_mapping_data md q uoc now = Some m"
  shows "lookup md ''question_id'' \<noteq> None
         \<and> (\<exists>ma ma'. lookup md ''mapping_analysis'' = Some ma
               \<and> (\<exists>xs. lookup ma ''mapped_elements'' = Some (PList xs))
               \<and> (\<exists>ys. lookup ma ''mapped_performance_criteria'' = Some (PList ys))
               \<and> lookup m ''mapping_analysis'' = Some ma'
               \<and> (\<forall>k \<in> set mapping_categories.
                     (\<exists>zs. lookup ma' k = Some (PList zs))
                     \<and> (lookup ma k = None \<longrightarrow> lookup ma' k = Some (PList []))))"
proof -
  from accept_mapping_data_Some [OF assms] obtain md1 md2 where
    v: "validate_basic_mapping_structure md = Inr True" and
    e: "ensure_complete_mapping_structure md q uoc = Inr md1" and
    a: "py_setitem md1 ''audit_trail'' (audit_trail now) = Inr md2" and
    s: "py_setitem md2 ''mapping_source'' (PStr ''ai'') = Inr m"
    by blast
  from validate_basic_mapping_structure_True [OF v] obtain ma xs ys where
    q: "lookup md ''question_id'' \<noteq> None" and
    ma: "lookup md ''mapping_analysis'' = Some ma" and
    xs: "lookup ma ''mapped_elements'' = Some (PList xs)" and
    ys: "lookup ma ''mapped_performance_criteria'' = Some (PList ys)"
    by blast
  from xs have d: "is_dict ma" by (rule lookup_Some_list_is_dict)
  from ensure_complete_mapping_structure_lists [OF e ma d] obtain ma' where
    r: "lookup md1 ''mapping_analysis'' = Some ma'" and
    l: "\<forall>k \<in> set mapping_categories.
          (\<exists>zs. lookup ma' k = Some (PList zs))
          \<and> (lookup ma k = None \<longrightarrow> lookup ma' k = Some (PList []))"
    by blast
  have "lookup md2 ''mapping_analysis'' = Some ma'"
    using py_setitem_other [OF a, of "''mapping_analysis''"] r by simp
  then have "lookup m ''mapping_analysis'' = Some ma'"
    using py_setitem_other [OF s, of "''mapping_analysis''"] by simp
  with q ma xs ys l show ?thesis by blast
qed

text \<open>A reply with the two required lists only, and the mapping it is accepted as.\<close>

lemma accept_example:
  "accept_mapping_data (PDict [(''question_id'', PInt 1),
              (''mapping_analysis'',
                 PDict [(''mapped_elements'', PList []),
                        (''mapped_performance_criteria'', PList [])])]) (PDict [(''id'', PStr ''Q1''), (''text'', PStr ''What is hand hygiene?'')]) (PDict []) ''2025-01-01T00:00:00'' = Some (PDict
    [(''question_id'', PInt 1),
     (''mapping_analysis'',
      PDict
       [(''mapped_elements'', PList []),
        (''mapped_performance_criteria'', PList []),
        (''mapped_performance_evidence'', PList []),
        (''mapped_knowledge_evidence'', PList [])]),
     (''question_text'', PStr ''What is hand hygiene?''),
     (''question_choices'', PList []),
     (''assessment_type'', PStr ''Mixed''),
     (''bloom_taxonomy'', default_bloom_taxonomy),
     (''asqa_quality_assessment'', default_asqa_quality_assessment),
     (''overall_assessment'', default_overall_assessment),
     (''comprehensive_analysis'', default_comprehensive_analysis),
     (''mapping_statistics'',
      PDict
       [(''total_mappings'', PInt 0),
        (''average_confidence'', PInt 0),
        (''asqa_compliance_distribution'',
         PDict [(''full'', PInt 0), (''partial'', PInt 0), (''minimal'', PInt 0)])]),
     (''audit_trail'', audit_trail ''2025-01-01T00:00:00''),
     (''mapping_source'', PStr ''ai'')])"
  by code_simp

text \<open>
  The hypothesis of C7 (as amended) holds at this reply, and the conclusion gives its
  \<open>question_id\<close> and the four lists of the accepted mapping.
\<close>

theorem accept_mapping_data_requires_witness:
  "accept_mapping_data (PDict [(''question_id'', PInt 1),
              (''mapping_analysis'',
                 PDict [(''mapped_elements'', PList []),
                        (''mapped_performance_criteria'', PList [])])]) (PDict [(''id'', PStr ''Q1''), (''text'', PStr ''What is hand hygiene?'')]) (PDict []) ''2025-01-01T00:00:00'' = Some (PDict
    [(''question_id'', PInt 1),
     (''mapping_analysis'',
      PDict
       [(''mapped_elements'', PList []),
        (''mapped_performance_criteria'', PList []),
        (''mapped_performance_evidence'', PList []),
        (''mapped_knowledge_evidence'', PList [])]),
     (''question_text'', PStr ''What is hand hygiene?''),
     (''question_choices'', PList []),
     (''assessment_type'', PStr ''Mixed''),
     (''bloom_taxonomy'', default_bloom_taxonomy),
     (''asqa_quality_assessment'', default_asqa_quality_assessment),
     (''overall_assessment'', default_overall_assessment),
     (''comprehensive_analysis'', default_comprehensive_analysis),
     (''mapping_statistics'',
      PDict
       [(''total_mappings'', PInt 0),
        (''average_confidence'', PInt 0),
        (''asqa_compliance_distribution'',
         PDict [(''full'', PInt 0), (''partial'', PInt 0), (''minimal'', PInt 0)])]),
     (''audit_trail'', audit_trail ''2025-01-01T00:00:00''),
     (''mapping_source'', PStr ''ai'')])
   \<and> lookup (PDict [(''question_id'', PInt 1),
              (''mapping_analysis'',
                 PDict [(''mapped_elements'', PList []),
                        (''mapped_performance_criteria'', PList [])])]) ''question_id'' = Some (PInt 1)
   \<and> lookup (PDict
    [(''question_id'', PInt 1),
     (''mapping_analysis'',
      PDict
       [(''mapped_elements'', PList []),
        (''mapped_performance_criteria'', PList []),
        (''mapped_performance_evidence'', PList []),
        (''mapped_knowledge_evidence'', PList [])]),
     (''question_text'', PStr ''What is hand hygiene?''),
     (''question_choices'', PList []),
     (''assessment_type'', PStr ''Mixed''),
     (''bloom_taxonomy'', default_bloom_taxonomy),
     (''asqa_quality_assessment'', default_asqa_quality_assessment),
     (''overall_assessment'', default_overall_assessment),
     (''comprehensive_analysis'', default_comprehensive_analysis),
     (''mapping_statistics'',
      PDict
       [(''total_mappings'', PInt 0),
        (''average_confidence'', PInt 0),
        (''asqa_compliance_distribution'',
         PDict [(''full'', PInt 0), (''partial'', PInt 0), (''minimal'', PInt 0)])]),
     (''audit_trail'', audit_trail ''2025-01-01T00:00:00''),
     (''mapping_source'', PStr ''ai'')]) ''mapping_analysis''
       = Some (PDict [(''mapped_elements'', PList []),
                      (''mapped_performance_criteria'', PList []),
                      (''mapped_performance_evidence'', PList []),
                      (''mapped_knowledge_evidence'', PList [])])"
proof -
  have h: "accept_mapping_data (PDict [(''question_id'', PInt 1),
              (''mapping_analysis'',
                 PDict [(''mapped_elements'', PList []),
                        (''mapped_performance_criteria'', PList [])])]) (PDict [(''id'', PStr ''Q1''), (''text'', PStr ''What is hand hygiene?'')]) (PDict []) ''2025-01-01T00:00:00'' = Some (PDict
    [(''question_id'', PInt 1),
     (''mapping_analysis'',
      PDict
       [(''mapped_elements'', PList []),
        (''mapped_performance_criteria'', PList []),
        (''mapped_performance_evidence'', PList []),
        (''mapped_knowledge_evidence'', PList [])]),
     (''question_text'', PStr ''What is hand hygiene?''),
     (''question_choices'', PList []),
     (''assessment_type'', PStr ''Mixed''),
     (''bloom_taxonomy'', default_bloom_taxonomy),
     (''asqa_quality_assessment'', default_asqa_quality_assessment),
     (''overall_assessment'', default_overall_assessment),
     (''comprehensive_analysis'', default_comprehensive_analysis),
     (''mapping_statistics'',
      PDict
       [(''total_mappings'', PInt 0),
        (''average_confidence'', PInt 0),
        (''asqa_compliance_distribution'',
         PDict [(''full'', PInt 0), (''partial'', PInt 0), (''minimal'', PInt 0)])]),
     (''audit_trail'', audit_trail ''2025-01-01T00:00:00''),
     (''mapping_source'', PStr ''ai'')])"
    by (rule accept_example)
  from accept_mapping_data_requires [OF h] show ?thesis
    using h by (simp add: mapping_categories_def)
qed

text \<open>
  C7 as stated fails: the \<open>mapping_analysis\<close> of this reply has neither
  \<open>mapped_performance_evidence\<close> nor \<open>mapped_knowledge_evidence\<close>, and the reply is
  accepted as a mapping.
\<close>

theorem reply_without_evidence_lists_accepted:
  "lookup (PDict [(''mapped_elements'', PList []), (''mapped_performance_criteria'', PList [])])
     ''mapped_performance_evidence'' = None
   \<and> lookup (PDict [(''mapped_elements'', PList []), (''mapped_performance_criteria'', PList [])])
     ''mapped_knowledge_evidence'' = None
   \<and> accept_mapping_data (PDict [(''question_id'', PInt 1),
              (''mapping_analysis'',
                 PDict [(''mapped_elements'', PList []),
                        (''mapped_performance_criteria'', PList [])])]) (PDict [(''id'', PStr ''Q1''), (''text'', PStr ''What is hand hygiene?'')]) (PDict []) ''2025-01-01T00:00:00'' = Some (PDict
    [(''question_id'', PInt 1),
     (''mapping_analysis'',
      PDict
       [(''mapped_elements'', PList []),
        (''mapped_performance_criteria'', PList []),
        (''mapped_performance_evidence'', PList []),
        (''mapped_knowledge_evidence'', PList [])]),
     (''question_text'', PStr ''What is hand hygiene?''),
     (''question_choices'', PList []),
     (''assessment_type'', PStr ''Mixed''),
     (''bloom_taxonomy'', default_bloom_taxonomy),
     (''asqa_quality_assessment'', default_asqa_quality_assessment),
     (''overall_assessment'', default_overall_assessment),
     (''comprehensive_analysis'', default_comprehensive_analysis),
     (''mapping_statistics'',
      PDict
       [(''total_mappings'', PInt 0),
        (''average_confidence'', PInt 0),
        (''asqa_compliance_distribution'',
         PDict [(''full'', PInt 0), (''partial'', PInt 0), (''minimal'', PInt 0)])]),
     (''audit_trail'', audit_trail ''2025-01-01T00:00:00''),
     (''mapping_source'', PStr ''ai'')])"
  by (simp add: accept_example)

section \<open>Properties of the question extraction\<close>

subsection \<open>Claim C6\<close>

lemma try_except_handler_total:
  assumes "\<And>e. \<exists>x. handler e = Inr x"
  shows "\<exists>x. try_except body handler = Inr x"
  using assms by (cases body) (auto simp: try_except_def)

text \<open>With or without an API key, and whatever the external extractor does.\<close>

lemma execute_from_text_total:
  "\<exists>found. execute_from_text api_key llm_extract text = Inr found"
  unfolding execute_from_text_def
  by (rule try_except_handler_total) (simp add: try_except_def)

text \<open>
  C6. For every input string, \<open>execute_from_text\<close> run without an API key raises no
  exception and returns a list of questions (possibly empty).
\<close>

theorem execute_from_text_never_raises:
  "\<exists>found. execute_from_text [] llm_extract text = Inr found"
  by (rule execute_from_text_total)

subsection \<open>Claim C10\<close>

text \<open>
  C10. For a path whose file does not exist, or whose extension (lower-cased) is not
  \<open>.docx\<close>, \<open>.pdf\<close> or \<open>.doc\<close>, \<open>ExtractAgent.execute\<close> returns the empty list and
  raises nothing: the \<open>FileNotFoundError\<close> or \<open>ValueError\<close> is caught inside.
\<close>

theorem execute_missing_or_unsupported:
  assumes "\<not> path_exists fs file_path
           \<or> py_lower (splitext_ext file_path) \<notin> {''.docx'', ''.pdf'', ''.doc''}"
  shows "execute fs api_key llm_extract file_path = Inr []"
  using assms by (auto simp: execute_def try_except_def Let_def)

text \<open>
  The hypothesis of C10 holds for a file system without files and the path
  \<open>missing.docx\<close>.
\<close>

theorem execute_missing_or_unsupported_witness:
  "path_exists \<lparr>path_exists = (\<lambda>p. False), extract_from_docx = (\<lambda>p. Inl ValueError),
                extract_from_pdf = (\<lambda>p. Inl ValueError),
                extract_from_doc = (\<lambda>p. Inl ValueError)\<rparr> ''missing.docx'' = False
   \<and> execute \<lparr>path_exists = (\<lambda>p. False), extract_from_docx = (\<lambda>p. Inl ValueError),
                extract_from_pdf = (\<lambda>p. Inl ValueError),
                extract_from_doc = (\<lambda>p. Inl ValueError)\<rparr> [] (\<lambda>t. Inr []) ''missing.docx''
       = Inr []"
  using execute_missing_or_unsupported
    [of "\<lparr>path_exists = (\<lambda>p. False), extract_from_docx = (\<lambda>p. Inl ValueError),
          extract_from_pdf = (\<lambda>p. Inl ValueError),
          extract_from_doc = (\<lambda>p. Inl ValueError)\<rparr>" "''missing.docx''" "[]" "\<lambda>t. Inr []"]
  by simp

subsection \<open>Claim C3\<close>


subsection \<open>Claim C2\<close>
















section \<open>The mapping agent\<close>

subsection \<open>Claim C1\<close>








subsection \<open>Claim C5\<close>

text \<open>
  C5 fails on the code. For the reply \<^verbatim>\<open>Here you go: ```json {"a":1,}```\<close> (and for the
  same text with a space before the closing fence) \<open>_clean_json_response\<close> returns
  \<open>None\<close>. Methods 1 and 2 both cut out \<^verbatim>\<open>{"a":1,}\<close>, which does not load because of
  the trailing comma. Method 3 takes the bounds found in the text without fences,
  13 and 21, and cuts the original reply with them, which gives \<^verbatim>\<open>```json \<close> and not
  the object. Method 4 finds \<^verbatim>\<open>{"a":1,}\<close> again and loads it without any repair. The
  repair itself would not have helped: on \<^verbatim>\<open>{"a":1,}\<close> it removes the comma and then
  escapes the first quote, giving \<^verbatim>\<open>{\"a":1}\<close>. The text \<^verbatim>\<open>{"a":1}\<close> is what loads to
  \<open>{"a": 1}\<close>.
\<close>

theorem clean_json_response_trailing_comma:
  "clean_json_response (''Here you go: ```json {'' @ [double_quote] @ ''a'' @ [double_quote] @ '':1,}```'') = None
   \<and> clean_json_response (''Here you go: ```json {'' @ [double_quote] @ ''a'' @ [double_quote] @ '':1,} ```'') = None
   \<and> brace_bounds (re_sub fence (\<lambda>m. []) (re_sub fence_json (\<lambda>m. [])
         (''Here you go: ```json {'' @ [double_quote] @ ''a'' @ [double_quote] @ '':1,}```''))) = Some (13, 21)
   \<and> slice (''Here you go: ```json {'' @ [double_quote] @ ''a'' @ [double_quote] @ '':1,}```'') 13 21 = ''```json ''
   \<and> fix_common_json_issues (''{'' @ [double_quote] @ ''a'' @ [double_quote] @ '':1,}'') = ''{'' @ [CHR 0x5C, double_quote] @ ''a'' @ [double_quote] @ '':1}''
   \<and> json_loads (''{'' @ [double_quote] @ ''a'' @ [double_quote] @ '':1}'') = Some (PDict [(''a'', PInt 1)])"
proof (intro conjI)
  show "clean_json_response (''Here you go: ```json {'' @ [double_quote] @ ''a'' @ [double_quote] @ '':1,}```'') = None"
    by code_simp
  show "clean_json_response (''Here you go: ```json {'' @ [double_quote] @ ''a'' @ [double_quote] @ '':1,} ```'') = None"
    by code_simp
  show "brace_bounds (re_sub fence (\<lambda>m. []) (re_sub fence_json (\<lambda>m. [])
         (''Here you go: ```json {'' @ [double_quote] @ ''a'' @ [double_quote] @ '':1,}```''))) = Some (13, 21)"
    by code_simp
  show "slice (''Here you go: ```json {'' @ [double_quote] @ ''a'' @ [double_quote] @ '':1,}```'') 13 21 = ''```json ''"
    by code_simp
  show "fix_common_json_issues (''{'' @ [double_quote] @ ''a'' @ [double_quote] @ '':1,}'') = ''{'' @ [CHR 0x5C, double_quote] @ ''a'' @ [double_quote] @ '':1}''"
    by code_simp
  show "json_loads (''{'' @ [double_quote] @ ''a'' @ [double_quote] @ '':1}'') = Some (PDict [(''a'', PInt 1)])"
    by code_simp
qed


end
